theory Spec2Isabelle
  imports Main "HOL-Library.Sublist" "HOL-Library.AList"
begin

section \<open>Python strings\<close>

text \<open>
  A Python \<open>str\<close> is modelled as a \<open>string\<close>: a list of characters whose code points
  are below 256. Positions are list indices, as Python counts them. The functions below
  are the built-in string operations the agent code calls, with the behaviour of CPython 3.
\<close>

text \<open>\<open>pat in s\<close>: substring test.\<close>

fun py_contains :: "string \<Rightarrow> string \<Rightarrow> bool" where
  "py_contains pat [] = (pat = [])"
| "py_contains pat (c # cs) = (prefix pat (c # cs) \<or> py_contains pat cs)"

text \<open>\<open>s.find(pat)\<close>: the lowest index where \<open>pat\<close> starts, or \<open>-1\<close>.\<close>

fun find_from :: "string \<Rightarrow> string \<Rightarrow> nat \<Rightarrow> int" where
  "find_from pat [] i = (if pat = [] then int i else - 1)"
| "find_from pat (c # cs) i = (if prefix pat (c # cs) then int i else find_from pat cs (i + 1))"

definition py_find :: "string \<Rightarrow> string \<Rightarrow> int" where
  "py_find pat s = find_from pat s 0"

text \<open>
  \<open>[a.start() for a in re.finditer(c, s)]\<close> for a pattern that is one literal character:
  the indices at which the character occurs, in increasing order.
\<close>

fun positions_from :: "char \<Rightarrow> string \<Rightarrow> nat \<Rightarrow> nat list" where
  "positions_from c [] i = []"
| "positions_from c (x # xs) i =
     (if x = c then i # positions_from c xs (i + 1) else positions_from c xs (i + 1))"

definition finditer_starts :: "char \<Rightarrow> string \<Rightarrow> nat list" where
  "finditer_starts c s = positions_from c s 0"

text \<open>
  \<open>s[i:j]\<close>: a negative index counts from the end, and both indices are clipped to
  \<open>0..len(s)\<close>; the slice is empty when the start is not before the stop.
\<close>

definition clip_index :: "nat \<Rightarrow> int \<Rightarrow> nat" where
  "clip_index n i = (if i < 0 then nat (max 0 (int n + i)) else min n (nat i))"

definition py_slice :: "string \<Rightarrow> int \<Rightarrow> int \<Rightarrow> string" where
  "py_slice s i j =
     (let a = clip_index (length s) i; b = clip_index (length s) j
      in take (b - a) (drop a s))"

text \<open>
  \<open>s.replace(pat, rep)\<close>: the occurrences of \<open>pat\<close> are found from the left and do not
  overlap. With an empty pattern Python puts \<open>rep\<close> before every character and at the end.
\<close>

function py_replace :: "string \<Rightarrow> string \<Rightarrow> string \<Rightarrow> string" where
  "py_replace pat rep [] = (if pat = [] then rep else [])"
| "py_replace pat rep (c # cs) =
     (if pat = [] then rep @ c # py_replace pat rep cs
      else if prefix pat (c # cs) then rep @ py_replace pat rep (drop (length pat) (c # cs))
      else c # py_replace pat rep cs)"
  by pat_completeness auto
termination
  by (relation "measure (\<lambda>(pat, rep, s). length s)") (auto simp: neq_Nil_conv)

text \<open>
  \<open>s.split(sep)\<close> for a non-empty separator: the pieces between the occurrences of
  \<open>sep\<close>, found from the left without overlap; there is always at least one piece.
  Python raises \<open>ValueError\<close> on an empty separator; the callers below test for it
  where the separator is not a literal, and the model gives no pieces then.
\<close>

function split_from :: "string \<Rightarrow> string \<Rightarrow> string \<Rightarrow> string list" where
  "split_from sep acc [] = [acc]"
| "split_from sep acc (c # cs) =
     (if sep \<noteq> [] \<and> prefix sep (c # cs) then acc # split_from sep [] (drop (length sep) (c # cs))
      else split_from sep (acc @ [c]) cs)"
  by pat_completeness auto
termination
  by (relation "measure (\<lambda>(sep, acc, s). length s)") (auto simp: neq_Nil_conv)

definition py_split :: "string \<Rightarrow> string \<Rightarrow> string list" where
  "py_split sep s = (if sep = [] then [] else split_from sep [] s)"

text \<open>
  \<open>str.isspace\<close> on the code points below 256, and \<open>s.strip()\<close>, which removes the
  whitespace at both ends.
\<close>

definition is_space :: "char \<Rightarrow> bool" where
  "is_space c = (c \<in> {CHR 0x09, CHR 0x0A, CHR 0x0B, CHR 0x0C, CHR 0x0D, CHR 0x1C, CHR 0x1D,
     CHR 0x1E, CHR 0x1F, CHR 0x20, CHR 0x85, CHR 0xA0})"

definition py_strip :: "string \<Rightarrow> string" where
  "py_strip s = rev (dropWhile is_space (rev (dropWhile is_space s)))"

text \<open>\<open>sep.join(xs)\<close>.\<close>

fun py_join :: "string \<Rightarrow> string list \<Rightarrow> string" where
  "py_join sep [] = []"
| "py_join sep [x] = x"
| "py_join sep (x # y # ys) = x @ sep @ py_join sep (y # ys)"

text \<open>\<open>str(n)\<close> for a natural number and for an integer: decimal digits.\<close>

definition digit_char :: "nat \<Rightarrow> char" where
  "digit_char d = ''0123456789'' ! d"

function show_nat :: "nat \<Rightarrow> string" where
  "show_nat n = (if n < 10 then [digit_char n] else show_nat (n div 10) @ [digit_char (n mod 10)])"
  by pat_completeness auto
termination
  by (relation "measure (\<lambda>n. n)") auto

definition show_int :: "int \<Rightarrow> string" where
  "show_int i = (if i < 0 then CHR ''-'' # show_nat (nat (- i)) else show_nat (nat i))"

text \<open>
  \<open>repr(s)\<close> of a string. Python quotes with \<open>'\<close> unless the string holds a \<open>'\<close> and
  no \<open>"\<close>; it escapes the backslash, the chosen quote, tab, newline and carriage return,
  and writes every other non-printable code point below 256 as \<open>\xhh\<close>.
\<close>

definition hex_char :: "nat \<Rightarrow> char" where
  "hex_char d = ''0123456789abcdef'' ! d"

definition is_printable :: "char \<Rightarrow> bool" where
  "is_printable c =
     (let n = (of_char c :: nat) in (32 \<le> n \<and> n < 127) \<or> (161 \<le> n \<and> n \<noteq> 173))"

definition repr_char :: "char \<Rightarrow> char \<Rightarrow> string" where
  "repr_char q c =
     (if c = q \<or> c = CHR 0x5C then [CHR 0x5C, c]
      else if c = CHR 0x09 then [CHR 0x5C, CHR ''t'']
      else if c = CHR 0x0A then [CHR 0x5C, CHR ''n'']
      else if c = CHR 0x0D then [CHR 0x5C, CHR ''r'']
      else if is_printable c then [c]
      else [CHR 0x5C, CHR ''x'', hex_char ((of_char c :: nat) div 16),
            hex_char ((of_char c :: nat) mod 16)])"

definition repr_quote :: "string \<Rightarrow> char" where
  "repr_quote s = (if CHR 0x27 \<in> set s \<and> CHR 0x22 \<notin> set s then CHR 0x22 else CHR 0x27)"

definition py_repr_str :: "string \<Rightarrow> string" where
  "py_repr_str s = (let q = repr_quote s in [q] @ concat (map (repr_char q) s) @ [q])"

section \<open>Exceptions\<close>

text \<open>
  An exception is its class and the argument it was built with. Only instances of
  \<open>Exception\<close> are modelled: they are what the handlers \<open>except Exception\<close> of the
  source catch. A function that can raise returns \<open>exn + 'a\<close>, with \<open>Inl\<close> for the raise.
\<close>

datatype exn_class =
    ValueError | KeyError | IndexError | TypeError | AttributeError
  | AgentError | AgentParsingError | AgentExecutionError
  | AgentMaxIterationsError | AgentGenerationError
  | OtherException string

datatype exn = Exn exn_class string

text \<open>\<open>str(e)\<close>: the argument, except for a \<open>KeyError\<close>, which shows its \<open>repr\<close>.\<close>

fun exn_str :: "exn \<Rightarrow> string" where
  "exn_str (Exn cls arg) = (if cls = KeyError then py_repr_str arg else arg)"


section \<open>The JSON decoder\<close>

text \<open>
  \<open>json.loads(s, strict=False)\<close> is the standard library's decoder, not code of the
  agent. The model follows CPython 3.8 to 3.12 (\<open>json/decoder.py\<close> and
  \<open>json/scanner.py\<close>, with the string scanner of \<open>Modules/_json.c\<close>, which is the one that
  runs): the values it builds, where it stops and the message and position of every
  \<open>JSONDecodeError\<close>. A \<open>\u\<close> escape takes four hexadecimal digits. The decoded text of a string can hold any code point, so it is a list of code
  points; \<open>ustr\<close> turns a \<open>string\<close> into one. A number with a fraction or an exponent becomes
  a Python \<open>float\<close>; floating point is not modelled, and \<open>JFloat x\<close> stands for \<open>float(x)\<close>.
  The interpreter's limits on recursion depth and on the digits of an integer are not
  modelled.
\<close>

type_synonym ustring = "nat list"

definition ustr :: "string \<Rightarrow> ustring" where
  "ustr s = map of_char s"

datatype json =
    JNull
  | JBool bool
  | JInt int
  | JFloat string
  | JStr ustring
  | JArray "json list"
  | JObject "(ustring \<times> json) list"

text \<open>
  A Python \<open>dict\<close> is an association list with distinct keys in insertion order:
  \<open>d[k] = v\<close> is \<open>AList.update k v d\<close>, \<open>k in d\<close> is \<open>k \<in> fst ` set d\<close> and \<open>d[k]\<close> is
  \<open>map_of d k\<close>. \<open>dict(pairs)\<close> stores the pairs from left to right.
\<close>

definition dict_of_pairs :: "('k \<times> 'v) list \<Rightarrow> ('k \<times> 'v) list" where
  "dict_of_pairs ps = foldl (\<lambda>d kv. AList.update (fst kv) (snd kv) d) [] ps"

text \<open>
  The result of a scanning function: the value with the rest of the input and the
  position of that rest in the document, \<open>StopIteration(idx)\<close>, or
  \<open>JSONDecodeError(msg, doc, pos)\<close>. The scanner recurses on nested values; the model
  bounds the recursion by a counter, and \<open>OutOfFuel\<close> is the counter running out.
\<close>

datatype 'a scan = Ok 'a string nat | Stop nat | Err string nat | OutOfFuel

definition is_json_ws :: "char \<Rightarrow> bool" where
  "is_json_ws c = (c \<in> {CHR 0x20, CHR 0x09, CHR 0x0A, CHR 0x0D})"

definition skip_ws :: "string \<Rightarrow> string" where
  "skip_ws s = dropWhile is_json_ws s"

definition ws_len :: "string \<Rightarrow> nat" where
  "ws_len s = length (takeWhile is_json_ws s)"

definition hex_val :: "char \<Rightarrow> nat option" where
  "hex_val c =
     (let n = (of_char c :: nat)
      in if 48 \<le> n \<and> n \<le> 57 then Some (n - 48)
         else if 97 \<le> n \<and> n \<le> 102 then Some (n - 87)
         else if 65 \<le> n \<and> n \<le> 70 then Some (n - 55)
         else None)"

text \<open>\<open>_decode_uXXXX\<close>, on the input that follows the \<open>u\<close>.\<close>

fun decode_uXXXX :: "string \<Rightarrow> nat option" where
  "decode_uXXXX (a # b # c # d # rest) =
     (case (hex_val a, hex_val b, hex_val c, hex_val d) of
        (Some w, Some x, Some y, Some z) \<Rightarrow> Some (((w * 16 + x) * 16 + y) * 16 + z)
      | _ \<Rightarrow> None)"
| "decode_uXXXX s = None"

text \<open>The table \<open>BACKSLASH\<close> of the one-letter escapes.\<close>

definition backslash :: "char \<Rightarrow> nat option" where
  "backslash c =
     (if c = CHR 0x22 then Some 34 else if c = CHR 0x5C then Some 92
      else if c = CHR ''/'' then Some 47 else if c = CHR ''b'' then Some 8
      else if c = CHR ''f'' then Some 12 else if c = CHR ''n'' then Some 10
      else if c = CHR ''r'' then Some 13 else if c = CHR ''t'' then Some 9
      else None)"

text \<open>
  \<open>scanstring(s, end, strict=False)\<close>: \<open>begin\<close> is the position of the opening quote,
  \<open>acc\<close> the text decoded so far, and the input starts at position \<open>p\<close>. Not being
  strict, it takes a control character as it stands. An unknown escape is reported at
  its backslash. A \<open>\u\<close> escape needs its four digits and one more character after them,
  and a second escape is tried as the low half of a pair only when seven characters or
  more follow the first.
\<close>

function scanstring :: "nat \<Rightarrow> ustring \<Rightarrow> string \<Rightarrow> nat \<Rightarrow> ustring scan" where
  "scanstring begin acc [] p = Err ''Unterminated string starting at'' begin"
| "scanstring begin acc (c # cs) p =
     (if c = CHR 0x22 then Ok acc cs (p + 1)
      else if c \<noteq> CHR 0x5C then scanstring begin (acc @ [of_char c]) cs (p + 1)
      else (case cs of
          [] \<Rightarrow> Err ''Unterminated string starting at'' begin
        | esc # cs' \<Rightarrow>
            if esc \<noteq> CHR ''u'' then
              (case backslash esc of
                 None \<Rightarrow> Err (''Invalid '' @ [CHR 0x5C] @ ''escape'') p
               | Some ch \<Rightarrow> scanstring begin (acc @ [ch]) cs' (p + 2))
            else if length cs' \<le> 4 then Err (''Invalid '' @ [CHR 0x5C] @ ''uXXXX escape'') (p + 1)
            else
              (case decode_uXXXX cs' of
                 None \<Rightarrow> Err (''Invalid '' @ [CHR 0x5C] @ ''uXXXX escape'') (p + 1)
               | Some uni \<Rightarrow>
                   if 0xd800 \<le> uni \<and> uni \<le> 0xdbff \<and> 6 < length (drop 4 cs')
                      \<and> prefix [CHR 0x5C, CHR ''u''] (drop 4 cs') then
                     (case decode_uXXXX (drop 6 cs') of
                        None \<Rightarrow> Err (''Invalid '' @ [CHR 0x5C] @ ''uXXXX escape'') (p + 7)
                      | Some uni2 \<Rightarrow>
                          if 0xdc00 \<le> uni2 \<and> uni2 \<le> 0xdfff then
                            scanstring begin
                              (acc @ [0x10000 + ((uni - 0xd800) * 1024 + (uni2 - 0xdc00))])
                              (drop 10 cs') (p + 12)
                          else scanstring begin (acc @ [uni]) (drop 4 cs') (p + 6))
                   else scanstring begin (acc @ [uni]) (drop 4 cs') (p + 6))))"
  by pat_completeness auto
termination
  by (relation "measure (\<lambda>(begin, acc, s, p). length s)") auto

text \<open>
  \<open>NUMBER_RE.match\<close>, for the pattern \<open>(-?(?:0|[1-9]\d*))(\.\d+)?([eE][-+]?\d+)?\<close>: the
  three groups (an absent group is empty), each with the rest of the input. \<open>match_digits\<close>
  is \<open>\d+\<close>, \<open>match_unsigned\<close> is \<open>0|[1-9]\d*\<close> and \<open>match_sign\<close> is \<open>[-+]?\<close>.
\<close>

definition is_digit :: "char \<Rightarrow> bool" where
  "is_digit c = (c \<in> set ''0123456789'')"

definition match_digits :: "string \<Rightarrow> (string \<times> string) option" where
  "match_digits s =
     (if s \<noteq> [] \<and> is_digit (hd s) then Some (takeWhile is_digit s, dropWhile is_digit s)
      else None)"

definition match_unsigned :: "string \<Rightarrow> (string \<times> string) option" where
  "match_unsigned s =
     (case s of
        [] \<Rightarrow> None
      | d # ds \<Rightarrow>
          if d = CHR ''0'' then Some (''0'', ds)
          else if is_digit d then Some (d # takeWhile is_digit ds, dropWhile is_digit ds)
          else None)"

definition match_integer :: "string \<Rightarrow> (string \<times> string) option" where
  "match_integer s =
     (case s of
        [] \<Rightarrow> None
      | c # cs \<Rightarrow>
          if c = CHR ''-'' then
            (case match_unsigned cs of None \<Rightarrow> None | Some (x, r) \<Rightarrow> Some (c # x, r))
          else match_unsigned s)"

definition match_frac :: "string \<Rightarrow> string \<times> string" where
  "match_frac s =
     (case s of
        [] \<Rightarrow> ([], s)
      | c # ds \<Rightarrow>
          if c = CHR ''.'' then
            (case match_digits ds of None \<Rightarrow> ([], s) | Some (x, r) \<Rightarrow> (c # x, r))
          else ([], s))"

definition match_sign :: "string \<Rightarrow> string \<times> string" where
  "match_sign s =
     (case s of
        [] \<Rightarrow> ([], s)
      | c # cs \<Rightarrow> if c = CHR ''-'' \<or> c = CHR ''+'' then ([c], cs) else ([], s))"

definition match_exp :: "string \<Rightarrow> string \<times> string" where
  "match_exp s =
     (case s of
        [] \<Rightarrow> ([], s)
      | e # r \<Rightarrow>
          if e = CHR ''e'' \<or> e = CHR ''E'' then
            (case match_digits (snd (match_sign r)) of
               None \<Rightarrow> ([], s)
             | Some (x, r') \<Rightarrow> (e # fst (match_sign r) @ x, r'))
          else ([], s))"

text \<open>\<open>int(x)\<close> on an optional minus sign and decimal digits.\<close>

definition digit_val :: "char \<Rightarrow> nat" where
  "digit_val c = of_char c - 48"

definition int_of_digits :: "string \<Rightarrow> int" where
  "int_of_digits x =
     (if prefix ''-'' x then - int (foldl (\<lambda>a c. 10 * a + digit_val c) 0 (tl x))
      else int (foldl (\<lambda>a c. 10 * a + digit_val c) 0 x))"

definition match_number :: "string \<Rightarrow> (json \<times> string) option" where
  "match_number s =
     (case match_integer s of
        None \<Rightarrow> None
      | Some (integer, r1) \<Rightarrow>
          (let (frac, r2) = match_frac r1; (exp, r3) = match_exp r2
           in if frac \<noteq> [] \<or> exp \<noteq> [] then Some (JFloat (integer @ frac @ exp), r3)
              else Some (JInt (int_of_digits integer), r3)))"


text \<open>
  \<open>scan_once\<close> of \<open>py_make_scanner\<close>, with \<open>JSONObject\<close> and \<open>JSONArray\<close>. The input starts at
  position \<open>p\<close>. \<open>JSONObject_pairs\<close> is the loop of \<open>JSONObject\<close>, entered after the quote
  that opens a key, with the pairs read so far; \<open>JSONArray_values\<close> is the loop of
  \<open>JSONArray\<close>, entered at a value, with the values read so far. Where the source tests one
  or two characters for whitespace before it skips the rest, the model skips all of it:
  the position reached is the same.
\<close>

definition expecting_name :: string where
  "expecting_name = ''Expecting property name enclosed in double quotes''"

definition expecting_colon :: string where
  "expecting_colon = ''Expecting '' @ [CHR 0x27] @ '':'' @ [CHR 0x27] @ '' delimiter''"

definition expecting_comma :: string where
  "expecting_comma = ''Expecting '' @ [CHR 0x27] @ '','' @ [CHR 0x27] @ '' delimiter''"

fun scan_once :: "nat \<Rightarrow> string \<Rightarrow> nat \<Rightarrow> json scan"
  and JSONObject_pairs :: "nat \<Rightarrow> (ustring \<times> json) list \<Rightarrow> string \<Rightarrow> nat \<Rightarrow> json scan"
  and JSONArray_values :: "nat \<Rightarrow> json list \<Rightarrow> string \<Rightarrow> nat \<Rightarrow> json scan"
where
  "scan_once 0 s p = OutOfFuel"
| "scan_once (Suc n) [] p = Stop p"
| "scan_once (Suc n) (c # cs) p =
     (if c = CHR 0x22 then
        (case scanstring p [] cs (p + 1) of
           Ok str r q \<Rightarrow> Ok (JStr str) r q
         | Stop i \<Rightarrow> Stop i
         | Err m i \<Rightarrow> Err m i
         | OutOfFuel \<Rightarrow> OutOfFuel)
      else if c = CHR ''{'' then
        (case skip_ws cs of
           [] \<Rightarrow> Err expecting_name (p + 1 + ws_len cs)
         | d # r \<Rightarrow>
             if d = CHR ''}'' then Ok (JObject []) r (p + 1 + ws_len cs + 1)
             else if d = CHR 0x22 then JSONObject_pairs n [] r (p + 1 + ws_len cs + 1)
             else Err expecting_name (p + 1 + ws_len cs))
      else if c = CHR ''['' then
        (if prefix '']'' (skip_ws cs) then Ok (JArray []) (tl (skip_ws cs)) (p + 1 + ws_len cs + 1)
         else JSONArray_values n [] (skip_ws cs) (p + 1 + ws_len cs))
      else if prefix ''null'' (c # cs) then Ok JNull (drop 3 cs) (p + 4)
      else if prefix ''true'' (c # cs) then Ok (JBool True) (drop 3 cs) (p + 4)
      else if prefix ''false'' (c # cs) then Ok (JBool False) (drop 4 cs) (p + 5)
      else
        (case match_number (c # cs) of
           Some (v, r) \<Rightarrow> Ok v r (p + (length (c # cs) - length r))
         | None \<Rightarrow>
             if prefix ''NaN'' (c # cs) then Ok (JFloat ''NaN'') (drop 2 cs) (p + 3)
             else if prefix ''Infinity'' (c # cs) then Ok (JFloat ''Infinity'') (drop 7 cs) (p + 8)
             else if prefix ''-Infinity'' (c # cs) then Ok (JFloat ''-Infinity'') (drop 8 cs) (p + 9)
             else Stop p))"
| "JSONObject_pairs 0 pairs s p = OutOfFuel"
| "JSONObject_pairs (Suc n) pairs s p =
     (case scanstring (p - 1) [] s p of
        Stop i \<Rightarrow> Stop i
      | Err m i \<Rightarrow> Err m i
      | OutOfFuel \<Rightarrow> OutOfFuel
      | Ok key r1 q1 \<Rightarrow>
          if \<not> prefix '':'' (skip_ws r1) then Err expecting_colon (q1 + ws_len r1)
          else
            (case scan_once n (skip_ws (tl (skip_ws r1)))
                    (q1 + ws_len r1 + 1 + ws_len (tl (skip_ws r1))) of
               Stop i \<Rightarrow> Err ''Expecting value'' i
             | Err m i \<Rightarrow> Err m i
             | OutOfFuel \<Rightarrow> OutOfFuel
             | Ok v r2 q2 \<Rightarrow>
                 (case skip_ws r2 of
                    [] \<Rightarrow> Err expecting_comma (q2 + ws_len r2)
                  | d # r3 \<Rightarrow>
                      if d = CHR ''}'' then
                        Ok (JObject (dict_of_pairs (pairs @ [(key, v)]))) r3 (q2 + ws_len r2 + 1)
                      else if d \<noteq> CHR '','' then Err expecting_comma (q2 + ws_len r2)
                      else if prefix [CHR 0x22] (skip_ws r3) then
                        JSONObject_pairs n (pairs @ [(key, v)]) (tl (skip_ws r3))
                          (q2 + ws_len r2 + 1 + ws_len r3 + 1)
                      else Err expecting_name (q2 + ws_len r2 + 1 + ws_len r3))))"
| "JSONArray_values 0 vals s p = OutOfFuel"
| "JSONArray_values (Suc n) vals s p =
     (case scan_once n s p of
        Stop i \<Rightarrow> Err ''Expecting value'' i
      | Err m i \<Rightarrow> Err m i
      | OutOfFuel \<Rightarrow> OutOfFuel
      | Ok v r q \<Rightarrow>
          (case skip_ws r of
             [] \<Rightarrow> Err expecting_comma (q + ws_len r)
           | d # r1 \<Rightarrow>
               if d = CHR '']'' then Ok (JArray (vals @ [v])) r1 (q + ws_len r + 1)
               else if d \<noteq> CHR '','' then Err expecting_comma (q + ws_len r)
               else JSONArray_values n (vals @ [v]) (skip_ws r1) (q + ws_len r + 1 + ws_len r1)))"

text \<open>
  \<open>JSONDecoder.decode\<close>: whitespace, one value, whitespace, and nothing more. The result
  is the value or the \<open>JSONDecodeError\<close>, as its message and its position \<open>pos\<close>.
\<close>

datatype json_error = JSONDecodeError string nat | Unfinished

definition json_loads :: "string \<Rightarrow> json_error + json" where
  "json_loads s =
     (case scan_once (Suc (2 * length s)) (skip_ws s) (ws_len s) of
        Stop i \<Rightarrow> Inl (JSONDecodeError ''Expecting value'' i)
      | Err m i \<Rightarrow> Inl (JSONDecodeError m i)
      | OutOfFuel \<Rightarrow> Inl Unfinished
      | Ok v r q \<Rightarrow>
          if skip_ws r \<noteq> [] then Inl (JSONDecodeError ''Extra data'' (q + ws_len r))
          else Inr v)"

text \<open>
  \<open>str(e)\<close> of a \<open>JSONDecodeError\<close> on the document \<open>doc\<close>: the message with the line,
  the column and the position. The line is one more than the newlines before \<open>pos\<close>; the
  column counts from the last newline before \<open>pos\<close>, or from the start of the document.
\<close>

definition lineno :: "string \<Rightarrow> nat \<Rightarrow> nat" where
  "lineno doc pos = length (filter (\<lambda>c. c = CHR 0x0A) (take pos doc)) + 1"

definition colno :: "string \<Rightarrow> nat \<Rightarrow> nat" where
  "colno doc pos = length (takeWhile (\<lambda>c. c \<noteq> CHR 0x0A) (rev (take pos doc))) + (pos - length doc) + 1"

definition json_error_str :: "string \<Rightarrow> string \<Rightarrow> nat \<Rightarrow> string" where
  "json_error_str doc msg pos =
     msg @ '': line '' @ show_nat (lineno doc pos) @ '' column '' @ show_nat (colno doc pos)
       @ '' (char '' @ show_nat pos @ '')''"


section \<open>The action parsers\<close>

text \<open>
  \<open>parse_json_blob\<close>. The blob is cut from the first \<open>{\<close> (\<open>find\<close> gives \<open>-1\<close> when there is
  none) to the last \<open>}\<close>; taking the last element of an empty list of matches raises
  \<open>IndexError\<close>, which the last handler turns into a \<open>ValueError\<close>. Every backslash followed
  by a double quote becomes a single quote, and the result is decoded: \<open>decode_json_blob\<close>
  is \<open>json.loads\<close> with the handler of \<open>JSONDecodeError\<close>, which works on the blob as cut
  and repaired. The decoder's counter running out takes the
  place of Python's \<open>RecursionError\<close>, which the last handler would catch; lemma
  \<open>json_loads_finishes\<close> shows that the counter of \<open>json_loads\<close> never runs out.
\<close>

definition multiple_tool_calls_msg :: string where
  "multiple_tool_calls_msg =
     ''JSON is invalid: you probably tried to provide multiple tool calls in one action. PROVIDE ONLY ONE TOOL CALL.''"

definition invalid_blob_msg :: "string \<Rightarrow> string \<Rightarrow> nat \<Rightarrow> string" where
  "invalid_blob_msg json_blob msg place =
     ''The JSON blob you used is invalid due to the following error: ''
       @ json_error_str json_blob msg place @ ''.\<newline>''
       @ ''JSON blob was: '' @ json_blob
       @ '', decoding failed on that specific part of the blob:\<newline>''
       @ [CHR 0x27] @ py_slice json_blob (int place - 4) (int place + 5) @ [CHR 0x27] @ ''.''"

definition decode_json_blob :: "string \<Rightarrow> exn + json" where
  "decode_json_blob json_blob =
     (case json_loads json_blob of
        Inr json_data \<Rightarrow> Inr json_data
      | Inl (JSONDecodeError msg place) \<Rightarrow>
          if py_slice json_blob (int place - 1) (int place + 2) = ''},\<newline>''
          then Inl (Exn ValueError multiple_tool_calls_msg)
          else Inl (Exn ValueError (invalid_blob_msg json_blob msg place))
      | Inl Unfinished \<Rightarrow>
          Inl (Exn ValueError (''Error in parsing the JSON blob: ''
            @ ''maximum recursion depth exceeded'')))"

definition parse_json_blob :: "string \<Rightarrow> exn + json" where
  "parse_json_blob json_blob =
     (let first_accolade_index = py_find ''{'' json_blob;
          matches = finditer_starts CHR ''}'' json_blob
      in if matches = [] then
           Inl (Exn ValueError (''Error in parsing the JSON blob: '' @ ''list index out of range''))
         else
           (let last_accolade_index = last matches
            in decode_json_blob
                 (py_replace [CHR 0x5C, CHR 0x22] [CHR 0x27]
                    (py_slice json_blob first_accolade_index (int last_accolade_index + 1)))))"

text \<open>
  \<open>parse_code_blob\<close>. \<open>re.search\<close> with the pattern \<open>```(?:py|python)?\n(.*?)\n```\<close> under
  \<open>re.DOTALL\<close> takes the leftmost position where the pattern matches. At one position the
  pattern needs the fence, then \<open>py\<close>, \<open>python\<close> or nothing, then a newline (only one of the
  three can be followed by the newline), then the shortest text that a newline and a fence
  follow: group 1. \<open>match_fence\<close> is the match at the start of its input, \<open>search_fence\<close>
  the search. Without a match \<open>match.group\<close> raises \<open>AttributeError\<close> on \<open>None\<close>.
\<close>

definition fence :: string where
  "fence = ''```''"

fun shortest_before :: "string \<Rightarrow> string \<Rightarrow> string option" where
  "shortest_before pat [] = (if pat = [] then Some [] else None)"
| "shortest_before pat (c # cs) =
     (if prefix pat (c # cs) then Some []
      else (case shortest_before pat cs of None \<Rightarrow> None | Some body \<Rightarrow> Some (c # body)))"

definition match_fence :: "string \<Rightarrow> string option" where
  "match_fence s =
     (if \<not> prefix fence s then None
      else (let r = drop 3 s
            in if prefix ''py\<newline>'' r then shortest_before (CHR 0x0A # fence) (drop 3 r)
               else if prefix ''python\<newline>'' r then shortest_before (CHR 0x0A # fence) (drop 7 r)
               else if prefix ''\<newline>'' r then shortest_before (CHR 0x0A # fence) (drop 1 r)
               else None))"

fun search_fence :: "string \<Rightarrow> string option" where
  "search_fence [] = match_fence []"
| "search_fence (c # cs) =
     (case match_fence (c # cs) of Some body \<Rightarrow> Some body | None \<Rightarrow> search_fence cs)"

definition code_pattern :: string where
  "code_pattern = ''```(?:py|python)?'' @ [CHR 0x5C] @ ''n(.*?)'' @ [CHR 0x5C] @ ''n```''"

definition invalid_code_msg :: "string \<Rightarrow> string" where
  "invalid_code_msg e =
     ''\<newline>The code blob you used is invalid: due to the following error: '' @ e
       @ ''\<newline>This means that the regex pattern '' @ code_pattern
       @ '' was not respected: make sure to include code with the correct pattern, for instance:''
       @ ''\<newline>Thoughts: Your thoughts\<newline>Code:\<newline>```py\<newline># Your python code here\<newline>```<end_action>''"

definition none_group_msg :: string where
  "none_group_msg = [CHR 0x27] @ ''NoneType'' @ [CHR 0x27] @ '' object has no attribute ''
     @ [CHR 0x27] @ ''group'' @ [CHR 0x27]"

definition parse_code_blob :: "string \<Rightarrow> exn + string" where
  "parse_code_blob code_blob =
     (case search_fence code_blob of
        Some body \<Rightarrow> Inr (py_strip body)
      | None \<Rightarrow> Inl (Exn ValueError (invalid_code_msg none_group_msg)))"

text \<open>
  \<open>parse_json_tool_call\<close>. The two fences are removed, the blob is parsed, and the keys
  \<open>action\<close> and \<open>action_input\<close> are looked up; Python's \<open>None\<close> is \<open>JNull\<close>. The message for
  a missing key shows \<open>str(tool_call)\<close>, which needs Python's rendering of floats and of
  every code point: \<open>repr_json\<close> stands for it and is a parameter. \<open>key in tool_call\<close> and
  \<open>tool_call[key]\<close> are given for every decoded value, as Python 3.12 words its errors.
\<close>

fun py_in_json :: "ustring \<Rightarrow> json \<Rightarrow> exn + bool" where
  "py_in_json key (JObject d) = Inr (key \<in> fst ` set d)"
| "py_in_json key (JArray xs) = Inr (JStr key \<in> set xs)"
| "py_in_json key (JStr x) = Inr (sublist key x)"
| "py_in_json key JNull = Inl (Exn TypeError (''argument of type '' @ [CHR 0x27] @ ''NoneType'' @ [CHR 0x27] @ '' is not iterable''))"
| "py_in_json key (JBool b) = Inl (Exn TypeError (''argument of type '' @ [CHR 0x27] @ ''bool'' @ [CHR 0x27] @ '' is not iterable''))"
| "py_in_json key (JInt i) = Inl (Exn TypeError (''argument of type '' @ [CHR 0x27] @ ''int'' @ [CHR 0x27] @ '' is not iterable''))"
| "py_in_json key (JFloat x) = Inl (Exn TypeError (''argument of type '' @ [CHR 0x27] @ ''float'' @ [CHR 0x27] @ '' is not iterable''))"

fun py_getitem :: "json \<Rightarrow> string \<Rightarrow> exn + json" where
  "py_getitem (JObject d) key =
     (case map_of d (ustr key) of Some v \<Rightarrow> Inr v | None \<Rightarrow> Inl (Exn KeyError key))"
| "py_getitem (JArray xs) key = Inl (Exn TypeError ''list indices must be integers or slices, not str'')"
| "py_getitem (JStr x) key = Inl (Exn TypeError (''string indices must be integers, not '' @ [CHR 0x27] @ ''str'' @ [CHR 0x27]))"
| "py_getitem JNull key = Inl (Exn TypeError ([CHR 0x27] @ ''NoneType'' @ [CHR 0x27] @ '' object is not subscriptable''))"
| "py_getitem (JBool b) key = Inl (Exn TypeError ([CHR 0x27] @ ''bool'' @ [CHR 0x27] @ '' object is not subscriptable''))"
| "py_getitem (JInt i) key = Inl (Exn TypeError ([CHR 0x27] @ ''int'' @ [CHR 0x27] @ '' object is not subscriptable''))"
| "py_getitem (JFloat x) key = Inl (Exn TypeError ([CHR 0x27] @ ''float'' @ [CHR 0x27] @ '' object is not subscriptable''))"

definition repr_str_list :: "string list \<Rightarrow> string" where
  "repr_str_list xs = ''['' @ py_join '', '' (map py_repr_str xs) @ '']''"

definition missing_keys_msg :: "(json \<Rightarrow> string) \<Rightarrow> json \<Rightarrow> string list \<Rightarrow> string" where
  "missing_keys_msg repr_json tool_call missing =
     ''Missing keys: '' @ repr_str_list missing @ '' in blob '' @ repr_json tool_call"

definition parse_json_tool_call :: "(json \<Rightarrow> string) \<Rightarrow> string \<Rightarrow> exn + json \<times> json" where
  "parse_json_tool_call repr_json json_blob =
     (case parse_json_blob (py_replace fence [] (py_replace ''```json'' [] json_blob)) of
        Inl e \<Rightarrow> Inl e
      | Inr tool_call \<Rightarrow>
          (case py_in_json (ustr ''action'') tool_call of
             Inl e \<Rightarrow> Inl e
           | Inr has_action \<Rightarrow>
               (case (if has_action then py_in_json (ustr ''action_input'') tool_call else Inr False) of
                  Inl e \<Rightarrow> Inl e
                | Inr has_input \<Rightarrow>
                    if has_action \<and> has_input then
                      (case py_getitem tool_call ''action'' of
                         Inl e \<Rightarrow> Inl e
                       | Inr action \<Rightarrow>
                           (case py_getitem tool_call ''action_input'' of
                              Inl e \<Rightarrow> Inl e
                            | Inr action_input \<Rightarrow> Inr (action, action_input)))
                    else if has_action then
                      (case py_getitem tool_call ''action'' of
                         Inl e \<Rightarrow> Inl e
                       | Inr action \<Rightarrow> Inr (action, JNull))
                    else
                      (case py_in_json (ustr ''action_input'') tool_call of
                         Inl e \<Rightarrow> Inl e
                       | Inr has_input' \<Rightarrow>
                           Inl (Exn ValueError (missing_keys_msg repr_json tool_call
                             ([''action''] @ (if has_input' then [] else [''action_input'']))))))))"

text \<open>
  \<open>parse_text_tool_call\<close>. The text before the first \<open>Observation:\<close> is kept; of the pieces
  that \<open>Action:\<close> separates, the one of index 1 is kept; that piece must split in two at
  \<open>Action input:\<close> (unpacking any other number of pieces raises \<open>ValueError\<close>).
  \<open>text_tool_call\<close> is what follows the unpacking: the input is parsed as a JSON blob
  when it holds a \<open>{\<close>. Every exception is raised again as a
  \<open>ValueError\<close> that shows it.
\<close>

datatype tool_input = TextInput string | JsonInput json

definition text_tool_call_msg :: "string \<Rightarrow> string" where
  "text_tool_call_msg e =
     ''Error in parsing the text tool call: '' @ e
       @ ''. Be sure to provide the correct format. DO NOT repeat your previous incorrect tool call.''"

definition unpack2_msg :: "nat \<Rightarrow> string" where
  "unpack2_msg n =
     (if n < 2 then ''not enough values to unpack (expected 2, got '' @ show_nat n @ '')''
      else ''too many values to unpack (expected 2)'')"

definition clean_tool_name :: "string \<Rightarrow> string" where
  "clean_tool_name tool_name = py_replace [CHR 0x5C] [] (py_replace [CHR 0x22] [] (py_strip tool_name))"

definition text_tool_call :: "string \<Rightarrow> string \<Rightarrow> exn + string \<times> tool_input" where
  "text_tool_call tool_name tool_input =
     (if py_contains ''{'' tool_input then
        (case parse_json_blob tool_input of
           Inl e \<Rightarrow> Inl (Exn ValueError (text_tool_call_msg (exn_str e)))
         | Inr v \<Rightarrow> Inr (clean_tool_name tool_name, JsonInput v))
      else Inr (clean_tool_name tool_name,
                TextInput (py_replace [CHR 0x22] [] (py_strip tool_input))))"

definition parse_text_tool_call :: "string \<Rightarrow> exn + string \<times> tool_input" where
  "parse_text_tool_call text =
     (let text1 = (if py_contains ''Observation:'' text then hd (py_split ''Observation:'' text) else text);
          text2 = (if py_contains ''Action:'' text1 then py_split ''Action:'' text1 ! 1 else text1)
      in case py_split ''Action input:'' text2 of
           [tool_name, tool_input] \<Rightarrow> text_tool_call tool_name tool_input
         | pieces \<Rightarrow> Inl (Exn ValueError (text_tool_call_msg (unpack2_msg (length pieces)))))"

section \<open>The toolbox\<close>

text \<open>
  A \<open>Tool\<close> is known by its attributes and by what calling it does: \<open>forward\<close> is the call,
  on one positional string or on keyword arguments, and returns a value or raises. A
  \<open>PreTool\<close> is the dataclass of \<open>tools.py\<close>; \<open>repo_id\<close> can be \<open>None\<close>. An entry of a toolbox
  is one or the other: \<open>isinstance(tool, Tool)\<close> is \<open>is_Concrete\<close>. A value \<open>'o pyval\<close> is a
  \<open>str\<close> or any other object.
\<close>

datatype 'o pyval = PStr string | PObj 'o

datatype 'o call_args = Positional string | Keywords "(string \<times> 'o pyval) list"

datatype 'o tool = Tool
  (name: string)
  (description: string)
  (inputs: "(string \<times> string) list")
  (output_type: string)
  (forward: "'o call_args \<Rightarrow> exn + 'o pyval")

datatype pretool = PreTool
  (pre_name: string)
  (pre_inputs: "(string \<times> string) list")
  (pre_output_type: string)
  (task: string)
  (pre_description: string)
  (repo_id: "string option")

datatype 'o entry = is_Concrete: Concrete "'o tool" | is_Deferred: Deferred pretool

fun entry_name :: "'o entry \<Rightarrow> string" where
  "entry_name (Concrete t) = name t"
| "entry_name (Deferred p) = pre_name p"

text \<open>The dict \<open>self._tools\<close>, from a tool's name to the entry.\<close>

type_synonym 'o toolbox = "(string \<times> 'o entry) list"

text \<open>
  \<open>_load_tools_if_needed\<close>. \<open>load_tool\<close> is an external function that returns a \<open>Tool\<close> or
  raises; it is a parameter. The loop visits every item once and assigns to the key it
  visits; the keys of a dict are distinct, so the assignment replaces the entry visited.
  When \<open>load_tool\<close> raises, the entries replaced so far stay replaced: the result is the
  exception, if any, with the toolbox as the loop left it.
\<close>

definition task_or_repo_id :: "pretool \<Rightarrow> string" where
  "task_or_repo_id p = (case repo_id p of None \<Rightarrow> task p | Some r \<Rightarrow> r)"

fun load_tools_if_needed ::
  "(string \<Rightarrow> exn + 'o tool) \<Rightarrow> 'o toolbox \<Rightarrow> exn option \<times> 'o toolbox" where
  "load_tools_if_needed load_tool [] = (None, [])"
| "load_tools_if_needed load_tool ((nm, Concrete t) # rest) =
     (case load_tools_if_needed load_tool rest of (e, rest') \<Rightarrow> (e, (nm, Concrete t) # rest'))"
| "load_tools_if_needed load_tool ((nm, Deferred p) # rest) =
     (case load_tool (task_or_repo_id p) of
        Inl e \<Rightarrow> (Some e, (nm, Deferred p) # rest)
      | Inr t \<Rightarrow>
          (case load_tools_if_needed load_tool rest of (e, rest') \<Rightarrow> (e, (nm, Concrete t) # rest')))"

text \<open>
  \<open>add_tool\<close>, \<open>remove_tool\<close>, \<open>update_tool\<close> and \<open>clear_toolbox\<close>. Each of the first three
  raises before it changes the dict, or changes it and returns.
\<close>

definition add_tool :: "'o toolbox \<Rightarrow> 'o entry \<Rightarrow> exn + 'o toolbox" where
  "add_tool tools tool =
     (if entry_name tool \<in> fst ` set tools then
        Inl (Exn KeyError (''Error: tool '' @ [CHR 0x27] @ entry_name tool @ [CHR 0x27]
          @ '' already exists in the toolbox.''))
      else Inr (AList.update (entry_name tool) tool tools))"

definition remove_tool :: "'o toolbox \<Rightarrow> string \<Rightarrow> exn + 'o toolbox" where
  "remove_tool tools tool_name =
     (if tool_name \<notin> fst ` set tools then
        Inl (Exn KeyError (''Error: tool '' @ tool_name
          @ '' not found in toolbox for removal, should be instead one of ''
          @ repr_str_list (map fst tools) @ ''.''))
      else Inr (AList.delete tool_name tools))"


definition clear_toolbox :: "'o toolbox \<Rightarrow> 'o toolbox" where
  "clear_toolbox tools = []"

text \<open>
  \<open>add_base_tools\<close>. The module keeps two globals: the flag \<open>_tools_are_initialized\<close> and the
  dict \<open>HUGGINGFACE_DEFAULT_TOOLS\<close>, which \<open>setup_default_tools\<close> (external, a parameter:
  what the call returns or raises) fills on the first call. The loop adds the default
  tools one by one and stops at the first \<open>add_tool\<close> that raises, keeping the tools added
  before. The result is the exception, if any, the toolbox and the globals.
\<close>

record 'o globals =
  tools_are_initialized :: bool
  HUGGINGFACE_DEFAULT_TOOLS :: "'o toolbox"

fun add_tools :: "'o toolbox \<Rightarrow> 'o entry list \<Rightarrow> exn option \<times> 'o toolbox" where
  "add_tools tools [] = (None, tools)"
| "add_tools tools (tool # rest) =
     (case add_tool tools tool of
        Inl e \<Rightarrow> (Some e, tools)
      | Inr tools' \<Rightarrow> add_tools tools' rest)"

definition add_base_tools ::
  "(exn + 'o toolbox) \<Rightarrow> (string \<Rightarrow> exn + 'o tool) \<Rightarrow> 'o globals \<Rightarrow> 'o toolbox \<Rightarrow> bool
     \<Rightarrow> (exn option \<times> 'o toolbox) \<times> 'o globals" where
  "add_base_tools setup_default_tools load_tool g tools add_python_interpreter =
     (case (if \<not> tools_are_initialized g then
              (case setup_default_tools of
                 Inl e \<Rightarrow> Inl e
               | Inr d \<Rightarrow> Inr \<lparr>tools_are_initialized = True, HUGGINGFACE_DEFAULT_TOOLS = d\<rparr>)
            else Inr g) of
        Inl e \<Rightarrow> ((Some e, tools), g)
      | Inr g' \<Rightarrow>
          (case add_tools tools
                  (filter (\<lambda>tool. entry_name tool \<noteq> ''python_interpreter'' \<or> add_python_interpreter)
                     (map snd (HUGGINGFACE_DEFAULT_TOOLS g'))) of
             (Some e, tools') \<Rightarrow> ((Some e, tools'), g')
           | (None, tools') \<Rightarrow> (load_tools_if_needed load_tool tools', g')))"

text \<open>
  \<open>Toolbox.__init__\<close>: the dict comprehension over the list, then the base tools when they
  are asked for, then the loading. An exception leaves no toolbox.
\<close>

definition Toolbox_init ::
  "(exn + 'o toolbox) \<Rightarrow> (string \<Rightarrow> exn + 'o tool) \<Rightarrow> 'o globals \<Rightarrow> 'o entry list \<Rightarrow> bool
     \<Rightarrow> (exn + 'o toolbox) \<times> 'o globals" where
  "Toolbox_init setup_default_tools load_tool g tools with_base_tools =
     (let tools0 = dict_of_pairs (map (\<lambda>tool. (entry_name tool, tool)) tools)
      in if with_base_tools then
           (case add_base_tools setup_default_tools load_tool g tools0 False of
              ((Some e, tools1), g') \<Rightarrow> (Inl e, g')
            | ((None, tools1), g') \<Rightarrow>
                (case load_tools_if_needed load_tool tools1 of
                   (Some e, tools2) \<Rightarrow> (Inl e, g')
                 | (None, tools2) \<Rightarrow> (Inr tools2, g')))
         else
           (case load_tools_if_needed load_tool tools0 of
              (Some e, tools2) \<Rightarrow> (Inl e, g)
            | (None, tools2) \<Rightarrow> (Inr tools2, g)))"




section \<open>The agent\<close>

text \<open>
  \<open>execute_tool_call\<close>. The arguments are a \<open>str\<close>, a dict, or a value of another type, which
  has no method \<open>items\<close>; the state is a dict. The arguments dict is changed in place, so
  the function returns, beside what the call returns or raises, the arguments as the
  caller finds them afterwards. Calling unpacks the dict into keyword arguments, so the
  tool cannot change it. \<open>get_tool_description_with_args\<close> is external: a parameter.
\<close>

datatype 'o arguments =
    ArgStr string
  | ArgDict "(string \<times> 'o pyval) list"
  | ArgOther string

fun call_entry :: "'o entry \<Rightarrow> 'o call_args \<Rightarrow> exn + 'o pyval" where
  "call_entry (Concrete t) a = forward t a"
| "call_entry (Deferred p) a =
     Inl (Exn TypeError ([CHR 0x27] @ ''PreTool'' @ [CHR 0x27] @ '' object is not callable''))"

definition substitute :: "(string \<times> 'o pyval) list \<Rightarrow> 'o pyval \<Rightarrow> 'o pyval" where
  "substitute state v =
     (case v of
        PStr x \<Rightarrow> (case map_of state x of Some stored \<Rightarrow> stored | None \<Rightarrow> v)
      | PObj x \<Rightarrow> v)"

definition resolve_arguments ::
  "(string \<times> 'o pyval) list \<Rightarrow> (string \<times> 'o pyval) list \<Rightarrow> (string \<times> 'o pyval) list" where
  "resolve_arguments state args = map (\<lambda>(key, v). (key, substitute state v)) args"

definition unknown_tool_msg :: "string list \<Rightarrow> string \<Rightarrow> string" where
  "unknown_tool_msg tool_names tool_name =
     ''Error: unknown tool '' @ tool_name @ '', should be instead one of ''
       @ repr_str_list tool_names @ ''.''"

definition execution_error_msg :: "string \<Rightarrow> string \<Rightarrow> string" where
  "execution_error_msg e tool_description =
     ''Error in tool call execution: '' @ e
       @ ''\<newline>You should only use this tool with a correct input.\<newline>''
       @ ''As a reminder, this tool'' @ [CHR 0x27] @ ''s description is the following:\<newline>''
       @ tool_description"

definition no_items_msg :: "string \<Rightarrow> string" where
  "no_items_msg type_name =
     [CHR 0x27] @ type_name @ [CHR 0x27] @ '' object has no attribute '' @ [CHR 0x27] @ ''items'' @ [CHR 0x27]"

definition execute_tool_call ::
  "('o entry \<Rightarrow> string) \<Rightarrow> 'o toolbox \<Rightarrow> (string \<times> 'o pyval) list \<Rightarrow> string \<Rightarrow> 'o arguments
     \<Rightarrow> (exn + 'o pyval) \<times> 'o arguments" where
  "execute_tool_call get_tool_description_with_args tools state tool_name arguments =
     (case map_of tools tool_name of
        None \<Rightarrow> (Inl (Exn AgentExecutionError (unknown_tool_msg (map fst tools) tool_name)), arguments)
      | Some tool \<Rightarrow>
          (let (attempt, arguments') =
                 (case arguments of
                    ArgStr x \<Rightarrow> (call_entry tool (Positional x), arguments)
                  | ArgDict d \<Rightarrow>
                      (call_entry tool (Keywords (resolve_arguments state d)),
                       ArgDict (resolve_arguments state d))
                  | ArgOther type_name \<Rightarrow>
                      (Inl (Exn AttributeError (no_items_msg type_name)), arguments))
           in case attempt of
                Inr observation \<Rightarrow> (Inr observation, arguments')
              | Inl e \<Rightarrow>
                  (Inl (Exn AgentExecutionError
                     (execution_error_msg (exn_str e) (get_tool_description_with_args tool))),
                   arguments')))"


text \<open>
  \<open>write_inner_memory_from_logs\<close>. A step log is a dict from keys to values; the model keeps
  of each value what the function uses: the string itself for \<open>system_prompt\<close>, \<open>task\<close>,
  \<open>llm_output\<close>, \<open>facts\<close> and \<open>plan\<close>, which the agent stores as strings, and the
  rendering by \<open>str\<close> for \<open>tool_call\<close>, \<open>error\<close> and \<open>observation\<close>. A message is a role and
  a content. \<open>step_messages\<close> is the body of the loop for the step of index \<open>i\<close>.
\<close>

datatype MessageRole = SYSTEM | USER | ASSISTANT | TOOL_RESPONSE

datatype message = Message (role: MessageRole) (content: string)

type_synonym step_log = "string \<rightharpoonup> string"

definition retry_msg :: string where
  "retry_msg = ''\<newline>Now let'' @ [CHR 0x27] @ ''s retry: take care not to repeat previous errors! If you have retried several times, try a completely different approach.\<newline>''"

definition step_messages :: "bool \<Rightarrow> nat \<Rightarrow> step_log \<Rightarrow> message list" where
  "step_messages summary_mode i step_log =
     (case step_log ''llm_output'' of
        Some x \<Rightarrow> if \<not> summary_mode then [Message ASSISTANT (py_strip x)] else []
      | None \<Rightarrow> [])
     @ (case step_log ''facts'' of
          Some x \<Rightarrow> [Message ASSISTANT (''[FACTS LIST]:\<newline>'' @ py_strip x)]
        | None \<Rightarrow> [])
     @ (case step_log ''plan'' of
          Some x \<Rightarrow> if \<not> summary_mode then [Message ASSISTANT (''[PLAN]:\<newline>'' @ py_strip x)] else []
        | None \<Rightarrow> [])
     @ (case step_log ''tool_call'' of
          Some x \<Rightarrow>
            if summary_mode
            then [Message ASSISTANT (''[STEP '' @ show_nat i @ '' TOOL CALL]: '' @ py_strip x)] else []
        | None \<Rightarrow> [])
     @ (case step_log ''task'' of
          Some x \<Rightarrow> [Message USER (''New task:\<newline>'' @ x)]
        | None \<Rightarrow> [])
     @ (case step_log ''error'' of
          Some e \<Rightarrow>
            [Message TOOL_RESPONSE (''[OUTPUT OF STEP '' @ show_nat i @ ''] Error: '' @ e @ retry_msg)]
        | None \<Rightarrow>
            (case step_log ''observation'' of
               Some x \<Rightarrow>
                 [Message TOOL_RESPONSE (''[OUTPUT OF STEP '' @ show_nat i @ ''] Observation:\<newline>'' @ x)]
             | None \<Rightarrow> []))"

fun steps_from :: "bool \<Rightarrow> nat \<Rightarrow> step_log list \<Rightarrow> message list" where
  "steps_from summary_mode i [] = []"
| "steps_from summary_mode i (step_log # rest) =
     step_messages summary_mode i step_log @ steps_from summary_mode (i + 1) rest"

definition write_inner_memory_from_logs :: "step_log list \<Rightarrow> bool \<Rightarrow> exn + message list" where
  "write_inner_memory_from_logs logs summary_mode =
     (case logs of
        [] \<Rightarrow> Inl (Exn IndexError ''list index out of range'')
      | log0 # rest \<Rightarrow>
          (case log0 ''system_prompt'' of
             None \<Rightarrow> Inl (Exn KeyError ''system_prompt'')
           | Some system_prompt \<Rightarrow>
               (case log0 ''task'' of
                  None \<Rightarrow> Inl (Exn KeyError ''task'')
                | Some tsk \<Rightarrow>
                    Inr ((if summary_mode then [Message USER (''Task: '' @ tsk)]
                          else [Message SYSTEM system_prompt, Message USER (''Task: '' @ tsk)])
                         @ steps_from summary_mode 0 rest))))"

text \<open>
  \<open>extract_action\<close>: the last two pieces of the output split at the token; with fewer than
  two pieces (or an empty token, on which \<open>split\<close> raises) it raises \<open>AgentParsingError\<close>.
\<close>

definition no_token_msg :: "string \<Rightarrow> string \<Rightarrow> string" where
  "no_token_msg split_token llm_output =
     ''Error: No '' @ [CHR 0x27] @ split_token @ [CHR 0x27] @ '' token provided in your output.''
       @ ''\<newline>Your output:\<newline>'' @ llm_output
       @ ''\<newline>. Be sure to include an action, prefaced with '' @ [CHR 0x27] @ split_token
       @ [CHR 0x27] @ ''!''"

definition extract_action :: "string \<Rightarrow> string \<Rightarrow> exn + string \<times> string" where
  "extract_action llm_output split_token =
     (let split = py_split split_token llm_output
      in if length split < 2 then Inl (Exn AgentParsingError (no_token_msg split_token llm_output))
         else Inr (split ! (length split - 2), last split))"

text \<open>
  \<open>format_prompt_with_tools\<close> and \<open>format_prompt_with_imports\<close>. The description of a tool
  under a template is external: the parameter \<open>describe\<close>.
\<close>

definition show_tool_descriptions :: "('o entry \<Rightarrow> string \<Rightarrow> string) \<Rightarrow> 'o toolbox \<Rightarrow> string \<Rightarrow> string" where
  "show_tool_descriptions describe tools tool_description_template =
     py_join ''\<newline>'' (map (\<lambda>tool. describe tool tool_description_template) (map snd tools))"

definition format_prompt_with_tools ::
  "('o entry \<Rightarrow> string \<Rightarrow> string) \<Rightarrow> 'o toolbox \<Rightarrow> string \<Rightarrow> string \<Rightarrow> string" where
  "format_prompt_with_tools describe tools prompt_template tool_description_template =
     (let prompt = py_replace ''<<tool_descriptions>>''
                     (show_tool_descriptions describe tools tool_description_template) prompt_template
      in if py_contains ''<<tool_names>>'' prompt then
           py_replace ''<<tool_names>>''
             (py_join '', '' (map (\<lambda>tool_name. [CHR 0x27] @ tool_name @ [CHR 0x27]) (map fst tools)))
             prompt
         else prompt)"

definition format_prompt_with_imports :: "string \<Rightarrow> string list \<Rightarrow> exn + string" where
  "format_prompt_with_imports prompt_template imports =
     (if \<not> py_contains ''<<authorized_imports>>'' prompt_template then
        Inl (Exn AgentError (''Tag '' @ [CHR 0x27] @ ''<<authorized_imports>>'' @ [CHR 0x27]
          @ '' should be provided in the prompt.''))
      else Inr (py_replace ''<<authorized_imports>>'' (repr_str_list imports) prompt_template))"

text \<open>
  \<open>CodeAgent.run\<close>. The agent is its toolbox, its prompt template, its template for tool
  descriptions and its authorized imports. What lies outside the agent is a record of
  parameters: the model engine and the code evaluator, each returning or raising (the
  evaluator also returns the state as it leaves it); the description of a tool; \<open>str\<close> of
  the keyword arguments; the dict \<open>BASE_PYTHON_TOOLS\<close>, whose values are plain functions of
  a type \<open>'f\<close>; and the list that Python makes of the union of \<open>LIST_SAFE_MODULES\<close> with the
  authorized imports, in the order its set gives. Logging is left out.
\<close>

record 'o code_agent =
  toolbox :: "'o toolbox"
  system_prompt_template :: string
  tool_description_template :: string
  authorized_imports :: "string list"

record ('o, 'f) collaborators =
  llm_engine :: "message list \<Rightarrow> string list \<Rightarrow> exn + string"
  python_evaluator ::
    "string \<Rightarrow> (string \<times> ('f + 'o entry)) list \<Rightarrow> (string \<times> 'o pyval) list \<Rightarrow> string list
       \<Rightarrow> (exn + 'o pyval) \<times> (string \<times> 'o pyval) list"
  describe_tool :: "'o entry \<Rightarrow> string \<Rightarrow> string"
  str_kwargs :: "(string \<times> 'o pyval) list \<Rightarrow> string"
  BASE_PYTHON_TOOLS :: "(string \<times> 'f) list"
  safe_and_authorized :: "string list"

definition merge_dicts :: "('k \<times> 'v) list \<Rightarrow> ('k \<times> 'v) list \<Rightarrow> ('k \<times> 'v) list" where
  "merge_dicts a b = foldl (\<lambda>d kv. AList.update (fst kv) (snd kv) d) a b"

definition initialize_for_run ::
  "('o, 'f) collaborators \<Rightarrow> 'o code_agent \<Rightarrow> string \<Rightarrow> exn + string \<times> step_log list" where
  "initialize_for_run ext agent tsk =
     (case format_prompt_with_imports
             (format_prompt_with_tools (describe_tool ext) (toolbox agent)
                (system_prompt_template agent) (tool_description_template agent))
             (safe_and_authorized ext) of
        Inl e \<Rightarrow> Inl e
      | Inr system_prompt \<Rightarrow>
          Inr (system_prompt, [[''system_prompt'' \<mapsto> system_prompt, ''task'' \<mapsto> tsk]]))"

definition code_parsing_error :: "exn \<Rightarrow> string" where
  "code_parsing_error e = ''Error in code parsing: '' @ exn_str e @ ''. Be sure to provide correct code''"

definition execution_error :: "exn \<Rightarrow> string" where
  "execution_error e = ''Error in execution: '' @ exn_str e @ ''. Be sure to provide correct code.''"

text \<open>
  The first steps of \<open>run\<close>: the task with the note on the keyword arguments, and the text
  that is parsed for code, which is the last piece of the output split at \<open>Code:\<close>, or the
  whole output when \<open>extract_action\<close> raises.
\<close>

definition task_with_arguments ::
  "('o, 'f) collaborators \<Rightarrow> string \<Rightarrow> (string \<times> 'o pyval) list \<Rightarrow> string" where
  "task_with_arguments ext tsk kwargs =
     (if length kwargs > 0
      then tsk @ ''\<newline>You have been provided with these initial arguments: ''
             @ str_kwargs ext kwargs @ ''.''
      else tsk)"

definition action_text :: "string \<Rightarrow> string" where
  "action_text llm_output =
     (case extract_action llm_output ''Code:'' of
        Inl e \<Rightarrow> llm_output
      | Inr (rationale, action) \<Rightarrow> action)"

definition available_tools ::
  "('o, 'f) collaborators \<Rightarrow> 'o code_agent \<Rightarrow> (string \<times> ('f + 'o entry)) list" where
  "available_tools ext agent =
     merge_dicts (map (\<lambda>(k, f). (k, Inl f)) (BASE_PYTHON_TOOLS ext))
       (map (\<lambda>(k, tool). (k, Inr tool)) (toolbox agent))"

definition run ::
  "('o, 'f) collaborators \<Rightarrow> 'o code_agent \<Rightarrow> string \<Rightarrow> bool \<Rightarrow> (string \<times> 'o pyval) list
     \<Rightarrow> exn + 'o pyval" where
  "run ext agent tsk return_generated_code kwargs =
     (case initialize_for_run ext agent (task_with_arguments ext tsk kwargs) of
        Inl e \<Rightarrow> Inl e
      | Inr (system_prompt, logs) \<Rightarrow>
          (case llm_engine ext
                  [Message SYSTEM system_prompt,
                   Message USER (''Task: '' @ task_with_arguments ext tsk kwargs)]
                  [''<end_action>''] of
             Inl e \<Rightarrow> Inl e
           | Inr llm_output \<Rightarrow>
               if return_generated_code then Inr (PStr llm_output)
               else
                 (case parse_code_blob (action_text llm_output) of
                    Inl e \<Rightarrow> Inr (PStr (code_parsing_error e))
                  | Inr code \<Rightarrow>
                      (case python_evaluator ext code (available_tools ext agent) kwargs
                              (authorized_imports agent) of
                         (Inl e, state') \<Rightarrow> Inr (PStr (execution_error e))
                       | (Inr output, state') \<Rightarrow>
                           (case map_of state' ''print_outputs'' of
                              None \<Rightarrow> Inr (PStr (execution_error (Exn KeyError ''print_outputs'')))
                            | Some printed \<Rightarrow> Inr output)))))"

section \<open>Executing a tool call\<close>

lemma resolve_arguments_explicit:
  "resolve_arguments st a =
     map (\<lambda>(key, v). (key,
       (case v of
          PStr x \<Rightarrow> (case map_of st x of Some stored \<Rightarrow> stored | None \<Rightarrow> PStr x)
        | PObj y \<Rightarrow> PObj y))) a"
  by (induction a) (auto simp: resolve_arguments_def substitute_def split: pyval.splits option.splits)

text \<open>
  Claim C6. When the named tool is in the toolbox and the arguments are a dict, the tool
  is called with keyword arguments in which every value that is a string and a key of the
  state has been replaced by the value stored under that key, and every other value is
  as given; what the call returns is returned, and what it raises is wrapped. With the
  state \<open>{"img": obj}\<close> and the arguments \<open>{"path": "img"}\<close> the tool is called with
  \<open>path=obj\<close>.
\<close>

theorem execute_tool_call_dereferences:
  assumes "map_of tools tool_name = Some (Concrete t)"
  shows "fst (execute_tool_call describe tools state tool_name (ArgDict args)) =
           (case forward t (Keywords (map (\<lambda>(key, v). (key,
                    (case v of
                       PStr x \<Rightarrow> (case map_of state x of Some stored \<Rightarrow> stored | None \<Rightarrow> PStr x)
                     | PObj y \<Rightarrow> PObj y))) args)) of
              Inr observation \<Rightarrow> Inr observation
            | Inl e \<Rightarrow> Inl (Exn AgentExecutionError
                (execution_error_msg (exn_str e) (describe (Concrete t)))))
         \<and> fst (execute_tool_call describe tools [(''img'', obj)] tool_name
                  (ArgDict [(''path'', PStr ''img'')])) =
           (case forward t (Keywords [(''path'', obj)]) of
              Inr observation \<Rightarrow> Inr observation
            | Inl e \<Rightarrow> Inl (Exn AgentExecutionError
                (execution_error_msg (exn_str e) (describe (Concrete t)))))"
  using assms
  by (simp add: execute_tool_call_def resolve_arguments_explicit[symmetric] split: sum.splits)
     (simp add: resolve_arguments_def substitute_def)

text \<open>
  A tool that returns the value of its only keyword argument: called through
  \<open>execute_tool_call\<close> with \<open>{"path": "img"}\<close>, it returns the object stored under \<open>img\<close>.
\<close>

theorem execute_tool_call_dereferences_witness:
  "map_of [(''reader'', Concrete (Tool ''reader'' ''reads a file'' [(''path'', ''text'')] ''text''
       (\<lambda>a. case a of Keywords [(key, v)] \<Rightarrow> Inr v | _ \<Rightarrow> Inl (Exn TypeError ''bad call''))))]
     ''reader''
     = Some (Concrete (Tool ''reader'' ''reads a file'' [(''path'', ''text'')] ''text''
       (\<lambda>a. case a of Keywords [(key, v)] \<Rightarrow> Inr v | _ \<Rightarrow> Inl (Exn TypeError ''bad call''))))
   \<and> fst (execute_tool_call (\<lambda>tool. ''D'')
        [(''reader'', Concrete (Tool ''reader'' ''reads a file'' [(''path'', ''text'')] ''text''
          (\<lambda>a. case a of Keywords [(key, v)] \<Rightarrow> Inr v | _ \<Rightarrow> Inl (Exn TypeError ''bad call''))))]
        [(''img'', PObj (42 :: nat))] ''reader'' (ArgDict [(''path'', PStr ''img'')]))
     = Inr (PObj 42)"
proof -
  let ?T = "Tool ''reader'' ''reads a file'' [(''path'', ''text'')] ''text''
       (\<lambda>a. case a of Keywords [(key, v)] \<Rightarrow> Inr v | _ \<Rightarrow> Inl (Exn TypeError ''bad call'')) :: nat tool"
  have h: "map_of [(''reader'', Concrete ?T)] ''reader'' = Some (Concrete ?T)" by simp
  from execute_tool_call_dereferences[OF h, of "\<lambda>tool. ''D''" "[]" "[]" "PObj 42"]
  have "fst (execute_tool_call (\<lambda>tool. ''D'') [(''reader'', Concrete ?T)]
          [(''img'', PObj 42)] ''reader'' (ArgDict [(''path'', PStr ''img'')])) = Inr (PObj 42)"
    by simp
  with h show ?thesis by simp
qed

text \<open>
  Claim C7. When the named tool is in the toolbox, whatever the arguments are,
  \<open>execute_tool_call\<close> returns what the call returns or raises \<open>AgentExecutionError\<close> with a
  message made of the text of an error, the reminder and the description of the tool.
  The error shown is the one raised: by the call on a string, by the call on the resolved
  dict, or by \<open>arguments.items()\<close> on a value that is neither. No exception of the call
  leaves the function as it was raised.
\<close>

theorem execute_tool_call_wraps:
  assumes "map_of tools tool_name = Some tool"
  shows "(case fst (execute_tool_call describe tools state tool_name arguments) of
            Inr observation \<Rightarrow> True
          | Inl err \<Rightarrow> (\<exists>e. err = Exn AgentExecutionError
              (''Error in tool call execution: '' @ exn_str e
                @ ''\<newline>You should only use this tool with a correct input.\<newline>''
                @ ''As a reminder, this tool'' @ [CHR 0x27] @ ''s description is the following:\<newline>''
                @ describe tool)))
       \<and> (\<forall>x e. call_entry tool (Positional x) = Inl e \<longrightarrow>
             fst (execute_tool_call describe tools state tool_name (ArgStr x)) =
               Inl (Exn AgentExecutionError (execution_error_msg (exn_str e) (describe tool))))
       \<and> (\<forall>d e. call_entry tool (Keywords (resolve_arguments state d)) = Inl e \<longrightarrow>
             fst (execute_tool_call describe tools state tool_name (ArgDict d)) =
               Inl (Exn AgentExecutionError (execution_error_msg (exn_str e) (describe tool))))
       \<and> (\<forall>type_name.
             fst (execute_tool_call describe tools state tool_name (ArgOther type_name)) =
               Inl (Exn AgentExecutionError (execution_error_msg
                 (exn_str (Exn AttributeError (no_items_msg type_name))) (describe tool))))"
proof -
  define attempt where "attempt =
    (case arguments of
       ArgStr x \<Rightarrow> call_entry tool (Positional x)
     | ArgDict d \<Rightarrow> call_entry tool (Keywords (resolve_arguments state d))
     | ArgOther type_name \<Rightarrow> Inl (Exn AttributeError (no_items_msg type_name)))"
  have res: "fst (execute_tool_call describe tools state tool_name arguments) =
      (case attempt of
         Inr observation \<Rightarrow> Inr observation
       | Inl e \<Rightarrow> Inl (Exn AgentExecutionError (execution_error_msg (exn_str e) (describe tool))))"
    using assms by (cases arguments) (simp_all add: execute_tool_call_def attempt_def split: sum.splits)
  have first: "(case fst (execute_tool_call describe tools state tool_name arguments) of
            Inr observation \<Rightarrow> True
          | Inl err \<Rightarrow> (\<exists>e. err = Exn AgentExecutionError
              (''Error in tool call execution: '' @ exn_str e
                @ ''\<newline>You should only use this tool with a correct input.\<newline>''
                @ ''As a reminder, this tool'' @ [CHR 0x27] @ ''s description is the following:\<newline>''
                @ describe tool)))"
  proof (cases attempt)
    case (Inl e)
    then show ?thesis
      unfolding res execution_error_msg_def by (simp del: append.simps) blast
  next
    case (Inr v)
    then show ?thesis unfolding res by simp
  qed
  have rest: "(\<forall>x e. call_entry tool (Positional x) = Inl e \<longrightarrow>
             fst (execute_tool_call describe tools state tool_name (ArgStr x)) =
               Inl (Exn AgentExecutionError (execution_error_msg (exn_str e) (describe tool))))
       \<and> (\<forall>d e. call_entry tool (Keywords (resolve_arguments state d)) = Inl e \<longrightarrow>
             fst (execute_tool_call describe tools state tool_name (ArgDict d)) =
               Inl (Exn AgentExecutionError (execution_error_msg (exn_str e) (describe tool))))
       \<and> (\<forall>type_name.
             fst (execute_tool_call describe tools state tool_name (ArgOther type_name)) =
               Inl (Exn AgentExecutionError (execution_error_msg
                 (exn_str (Exn AttributeError (no_items_msg type_name))) (describe tool))))"
    using assms by (simp add: execute_tool_call_def)
  from first rest show ?thesis by blast
qed

text \<open>A tool that raises \<open>ValueError("boom")\<close>: the caller gets the wrapped error.\<close>

theorem execute_tool_call_wraps_witness:
  "map_of [(''t'', Concrete (Tool ''t'' ''d'' [] ''text'' (\<lambda>a. Inl (Exn ValueError ''boom''))))] ''t''
     = Some (Concrete (Tool ''t'' ''d'' [] ''text'' (\<lambda>a. Inl (Exn ValueError ''boom''))))
   \<and> fst (execute_tool_call (\<lambda>tool. ''D'')
        [(''t'', Concrete (Tool ''t'' ''d'' [] ''text'' (\<lambda>a. Inl (Exn ValueError ''boom''))))]
        ([] :: (string \<times> unit pyval) list) ''t'' (ArgStr ''x''))
     = Inl (Exn AgentExecutionError (execution_error_msg ''boom'' ''D''))"
proof -
  let ?T = "Tool ''t'' ''d'' [] ''text'' (\<lambda>a. Inl (Exn ValueError ''boom'')) :: unit tool"
  have h: "map_of [(''t'', Concrete ?T)] ''t'' = Some (Concrete ?T)" by simp
  have c: "call_entry (Concrete ?T) (Positional ''x'') = Inl (Exn ValueError ''boom'')" by simp
  from execute_tool_call_wraps[OF h, of "\<lambda>tool. ''D''" "[]" "ArgStr ''x''"]
  have "fst (execute_tool_call (\<lambda>tool. ''D'') [(''t'', Concrete ?T)] [] ''t'' (ArgStr ''x''))
     = Inl (Exn AgentExecutionError (execution_error_msg (exn_str (Exn ValueError ''boom'')) ''D''))"
    using c by blast
  with h show ?thesis by simp
qed

text \<open>
  Claim C9 as stated fails when the tool is unknown: the call raises before it looks at
  the arguments, and the caller's dict still holds the string \<open>img\<close>, a key of the state.
\<close>

theorem unknown_tool_leaves_arguments:
  "execute_tool_call (\<lambda>tool. ''D'') ([] :: unit toolbox) [(''img'', PObj ())] ''reader''
        (ArgDict [(''path'', PStr ''img'')])
     = (Inl (Exn AgentExecutionError (unknown_tool_msg [] ''reader'')),
        ArgDict [(''path'', PStr ''img'')])
   \<and> map_of [(''img'', PObj ())] ''img'' = Some (PObj ())"
  by (simp add: execute_tool_call_def)

text \<open>
  Claim C9, amended. When the named tool is in the toolbox, the caller's dict holds after
  the call, whether it returned or raised, the stored value in place of every value that
  was a string and a key of the state, and every other value as it was. When the tool is
  unknown the call raises and the dict is as it was.
\<close>

theorem arguments_updated_in_place:
  "(map_of tools tool_name = Some tool \<longrightarrow>
      snd (execute_tool_call describe tools state tool_name (ArgDict d)) =
        ArgDict (map (\<lambda>(key, v). (key,
          (case v of
             PStr x \<Rightarrow> (case map_of state x of Some stored \<Rightarrow> stored | None \<Rightarrow> PStr x)
           | PObj y \<Rightarrow> PObj y))) d))
   \<and> (map_of tools tool_name = None \<longrightarrow>
        execute_tool_call describe tools state tool_name (ArgDict d) =
          (Inl (Exn AgentExecutionError (unknown_tool_msg (map fst tools) tool_name)), ArgDict d))"
  by (auto simp: execute_tool_call_def resolve_arguments_explicit split: sum.splits)

text \<open>A tool that raises: the caller's dict has the object under \<open>path\<close> all the same.\<close>

theorem arguments_updated_in_place_witness:
  "snd (execute_tool_call (\<lambda>tool. ''D'')
        [(''t'', Concrete (Tool ''t'' ''d'' [] ''text'' (\<lambda>a. Inl (Exn ValueError ''boom''))))]
        [(''img'', PObj ())] ''t'' (ArgDict [(''path'', PStr ''img''), (''mode'', PStr ''rgb'')]))
     = ArgDict [(''path'', PObj ()), (''mode'', PStr ''rgb'')]
   \<and> execute_tool_call (\<lambda>tool. ''D'') ([] :: unit toolbox) [(''img'', PObj ())] ''t''
        (ArgDict [(''path'', PStr ''img'')])
     = (Inl (Exn AgentExecutionError (unknown_tool_msg [] ''t'')), ArgDict [(''path'', PStr ''img'')])"
  using arguments_updated_in_place[of "[(''t'', Concrete (Tool ''t'' ''d'' [] ''text'' (\<lambda>a. Inl (Exn ValueError ''boom''))))]"
      "''t''" "Concrete (Tool ''t'' ''d'' [] ''text'' (\<lambda>a. Inl (Exn ValueError ''boom'')))" "\<lambda>tool. ''D''" "[(''img'', PObj ())]"
      "[(''path'', PStr ''img''), (''mode'', PStr ''rgb'')]"]
    arguments_updated_in_place[of "[] :: unit toolbox" "''t''" undefined "\<lambda>tool. ''D''" "[(''img'', PObj ())]"
      "[(''path'', PStr ''img'')]"]
  by simp


section \<open>The transcript\<close>

lemma step_messages_summary_erase:
  "step_messages True i (l(''llm_output'' := None, ''plan'' := None)) = step_messages True i l"
  by (simp add: step_messages_def split: option.splits)

lemma step_messages_full_erase:
  "step_messages False i (l(''tool_call'' := None)) = step_messages False i l"
  by (simp add: step_messages_def split: option.splits)

lemma steps_from_summary_erase:
  "steps_from True k (map (\<lambda>l. l(''llm_output'' := None, ''plan'' := None)) steps) = steps_from True k steps"
  by (induction steps arbitrary: k) (simp_all only: steps_from.simps list.map step_messages_summary_erase)

lemma steps_from_full_erase:
  "steps_from False k (map (\<lambda>l. l(''tool_call'' := None)) steps) = steps_from False k steps"
  by (induction steps arbitrary: k) (simp_all only: steps_from.simps list.map step_messages_full_erase)

lemma steps_from_nth:
  "i < length steps \<Longrightarrow> set (step_messages sm (k + i) (steps ! i)) \<subseteq> set (steps_from sm k steps)"
proof (induction steps arbitrary: k i)
  case Nil
  then show ?case by simp
next
  case (Cons l steps)
  show ?case
  proof (cases i)
    case 0
    then show ?thesis by simp
  next
    case (Suc j)
    with Cons.prems have "j < length steps" by simp
    from Cons.IH[OF this, of "k + 1"]
    have "set (step_messages sm (k + 1 + j) (steps ! j)) \<subseteq> set (steps_from sm (k + 1) steps)" .
    then show ?thesis using Suc by (simp add: le_supI2)
  qed
qed

lemma step_messages_roles: "list_all (\<lambda>m. role m \<noteq> SYSTEM) (step_messages sm i l)"
  by (simp add: step_messages_def split: option.splits)

lemma steps_from_roles: "list_all (\<lambda>m. role m \<noteq> SYSTEM) (steps_from sm k steps)"
  by (induction steps arbitrary: k) (simp_all add: step_messages_roles)








text \<open>
  Claim C8. For a log whose entry 0 holds the system prompt and the task: in summary mode
  the transcript starts with the task message and has no message of role system; it is
  the same when \<open>llm_output\<close> and \<open>plan\<close> are removed from every step, and it has the
  message of every \<open>tool_call\<close>, with the index of its step. In full mode the transcript
  starts with the system prompt and the task message; it has the message of every
  \<open>llm_output\<close> and of every \<open>plan\<close>, and it is the same when \<open>tool_call\<close> is removed from
  every step.
\<close>

theorem transcript_modes:
  assumes "log0 ''system_prompt'' = Some system_prompt" and "log0 ''task'' = Some tsk"
  shows "\<exists>summary full.
      write_inner_memory_from_logs (log0 # steps) True = Inr (Message USER (''Task: '' @ tsk) # summary)
    \<and> write_inner_memory_from_logs (log0 # steps) False =
        Inr (Message SYSTEM system_prompt # Message USER (''Task: '' @ tsk) # full)
    \<and> (\<forall>m \<in> set (Message USER (''Task: '' @ tsk) # summary). role m \<noteq> SYSTEM)
    \<and> write_inner_memory_from_logs
         (log0 # map (\<lambda>l. l(''llm_output'' := None, ''plan'' := None)) steps) True =
        Inr (Message USER (''Task: '' @ tsk) # summary)
    \<and> (\<forall>i < length steps. \<forall>x. (steps ! i) ''tool_call'' = Some x \<longrightarrow>
          Message ASSISTANT (''[STEP '' @ show_nat i @ '' TOOL CALL]: '' @ py_strip x) \<in> set summary)
    \<and> (\<forall>i < length steps. \<forall>x. (steps ! i) ''llm_output'' = Some x \<longrightarrow>
          Message ASSISTANT (py_strip x) \<in> set full)
    \<and> (\<forall>i < length steps. \<forall>x. (steps ! i) ''plan'' = Some x \<longrightarrow>
          Message ASSISTANT (''[PLAN]:\<newline>'' @ py_strip x) \<in> set full)
    \<and> write_inner_memory_from_logs (log0 # map (\<lambda>l. l(''tool_call'' := None)) steps) False =
        Inr (Message SYSTEM system_prompt # Message USER (''Task: '' @ tsk) # full)"
proof -
  let ?summary = "steps_from True 0 steps" and ?full = "steps_from False 0 steps"
  have s1: "write_inner_memory_from_logs (log0 # steps) True = Inr (Message USER (''Task: '' @ tsk) # ?summary)"
    using assms by (simp add: write_inner_memory_from_logs_def)
  have f1: "write_inner_memory_from_logs (log0 # steps) False =
        Inr (Message SYSTEM system_prompt # Message USER (''Task: '' @ tsk) # ?full)"
    using assms by (simp add: write_inner_memory_from_logs_def)
  have s2: "\<forall>m \<in> set (Message USER (''Task: '' @ tsk) # ?summary). role m \<noteq> SYSTEM"
    using steps_from_roles[of True 0 steps] by (simp add: list_all_iff)
  have s3: "write_inner_memory_from_logs
         (log0 # map (\<lambda>l. l(''llm_output'' := None, ''plan'' := None)) steps) True =
        Inr (Message USER (''Task: '' @ tsk) # ?summary)"
    using assms by (simp add: write_inner_memory_from_logs_def steps_from_summary_erase)
  have f3: "write_inner_memory_from_logs (log0 # map (\<lambda>l. l(''tool_call'' := None)) steps) False =
        Inr (Message SYSTEM system_prompt # Message USER (''Task: '' @ tsk) # ?full)"
    using assms by (simp add: write_inner_memory_from_logs_def steps_from_full_erase)
  have s4: "\<forall>i < length steps. \<forall>x. (steps ! i) ''tool_call'' = Some x \<longrightarrow>
          Message ASSISTANT (''[STEP '' @ show_nat i @ '' TOOL CALL]: '' @ py_strip x) \<in> set ?summary"
  proof (intro allI impI)
    fix i x assume i: "i < length steps" and x: "(steps ! i) ''tool_call'' = Some x"
    have sub: "set (step_messages True i (steps ! i)) \<subseteq> set (steps_from True 0 steps)"
      using steps_from_nth[OF i, of True 0] by simp
    have mem: "Message ASSISTANT (''[STEP '' @ show_nat i @ '' TOOL CALL]: '' @ py_strip x) \<in> set (step_messages True i (steps ! i))"
      using x by (simp add: step_messages_def)
    from sub mem show "Message ASSISTANT (''[STEP '' @ show_nat i @ '' TOOL CALL]: '' @ py_strip x) \<in> set (steps_from True 0 steps)"
      by (rule subsetD)
  qed
  have f4: "\<forall>i < length steps. \<forall>x. (steps ! i) ''llm_output'' = Some x \<longrightarrow>
          Message ASSISTANT (py_strip x) \<in> set ?full"
  proof (intro allI impI)
    fix i x assume i: "i < length steps" and x: "(steps ! i) ''llm_output'' = Some x"
    have sub: "set (step_messages False i (steps ! i)) \<subseteq> set (steps_from False 0 steps)"
      using steps_from_nth[OF i, of False 0] by simp
    have mem: "Message ASSISTANT (py_strip x) \<in> set (step_messages False i (steps ! i))"
      using x by (simp add: step_messages_def)
    from sub mem show "Message ASSISTANT (py_strip x) \<in> set (steps_from False 0 steps)"
      by (rule subsetD)
  qed
  have f5: "\<forall>i < length steps. \<forall>x. (steps ! i) ''plan'' = Some x \<longrightarrow>
          Message ASSISTANT (''[PLAN]:\<newline>'' @ py_strip x) \<in> set ?full"
  proof (intro allI impI)
    fix i x assume i: "i < length steps" and x: "(steps ! i) ''plan'' = Some x"
    have sub: "set (step_messages False i (steps ! i)) \<subseteq> set (steps_from False 0 steps)"
      using steps_from_nth[OF i, of False 0] by simp
    have mem: "Message ASSISTANT (''[PLAN]:\<newline>'' @ py_strip x) \<in> set (step_messages False i (steps ! i))"
      using x by (simp add: step_messages_def)
    from sub mem show "Message ASSISTANT (''[PLAN]:\<newline>'' @ py_strip x) \<in> set (steps_from False 0 steps)"
      by (rule subsetD)
  qed
  from s1 f1 s2 s3 s4 f4 f5 f3 show ?thesis by blast
qed

text \<open>A log of one step that holds an \<open>llm_output\<close> and a \<open>tool_call\<close>.\<close>

theorem transcript_modes_witness:
  "[''system_prompt'' \<mapsto> ''SP'', ''task'' \<mapsto> ''T''] ''system_prompt'' = Some ''SP''
   \<and> [''system_prompt'' \<mapsto> ''SP'', ''task'' \<mapsto> ''T''] ''task'' = Some ''T''
   \<and> (\<exists>summary full.
        write_inner_memory_from_logs
          [[''system_prompt'' \<mapsto> ''SP'', ''task'' \<mapsto> ''T''],
           [''llm_output'' \<mapsto> ''thinking'', ''tool_call'' \<mapsto> ''search'']] True
          = Inr (Message USER ''Task: T'' # summary)
      \<and> write_inner_memory_from_logs
          [[''system_prompt'' \<mapsto> ''SP'', ''task'' \<mapsto> ''T''],
           [''llm_output'' \<mapsto> ''thinking'', ''tool_call'' \<mapsto> ''search'']] False
          = Inr (Message SYSTEM ''SP'' # Message USER ''Task: T'' # full)
      \<and> Message ASSISTANT ''[STEP 0 TOOL CALL]: search'' \<in> set summary
      \<and> Message ASSISTANT ''thinking'' \<in> set full)"
proof -
  let ?log0 = "[''system_prompt'' \<mapsto> ''SP'', ''task'' \<mapsto> ''T''] :: step_log"
  let ?step = "[''llm_output'' \<mapsto> ''thinking'', ''tool_call'' \<mapsto> ''search''] :: step_log"
  have h1: "?log0 ''system_prompt'' = Some ''SP''" by simp
  have h2: "?log0 ''task'' = Some ''T''" by simp
  from transcript_modes[OF h1 h2, of "[?step]"]
  obtain summary full where
    s: "write_inner_memory_from_logs [?log0, ?step] True = Inr (Message USER (''Task: '' @ ''T'') # summary)"
    and f: "write_inner_memory_from_logs [?log0, ?step] False =
        Inr (Message SYSTEM ''SP'' # Message USER (''Task: '' @ ''T'') # full)"
    and tc: "\<forall>i < length [?step]. \<forall>x. ([?step] ! i) ''tool_call'' = Some x \<longrightarrow>
          Message ASSISTANT (''[STEP '' @ show_nat i @ '' TOOL CALL]: '' @ py_strip x) \<in> set summary"
    and lo: "\<forall>i < length [?step]. \<forall>x. ([?step] ! i) ''llm_output'' = Some x \<longrightarrow>
          Message ASSISTANT (py_strip x) \<in> set full"
    by blast
  have t0: "([?step] ! 0) ''tool_call'' = Some ''search''" by simp
  have l0: "([?step] ! 0) ''llm_output'' = Some ''thinking''" by simp
  have m1: "Message ASSISTANT ''[STEP 0 TOOL CALL]: search'' \<in> set summary"
    using tc[rule_format, of 0 "''search''"] t0 by (simp add: py_strip_def is_space_def digit_char_def)
  have m2: "Message ASSISTANT ''thinking'' \<in> set full"
    using lo[rule_format, of 0 "''thinking''"] l0 by (simp add: py_strip_def is_space_def)
  from s f m1 m2 h1 h2 show ?thesis by simp
qed


section \<open>Properties of the toolbox\<close>

lemma foldl_update_map_of:
  "map_of (foldl (\<lambda>d kv. AList.update (fst kv) (snd kv) d) d0 ps) k =
     (case map_of (rev ps) k of Some v \<Rightarrow> Some v | None \<Rightarrow> map_of d0 k)"
proof (induction ps arbitrary: d0)
  case Nil
  then show ?case by simp
next
  case (Cons p ps)
  show ?case
    by (simp add: Cons.IH update_conv' map_add_def split: option.splits)
qed

lemma foldl_update_distinct:
  "distinct (map fst d0) \<Longrightarrow> distinct (map fst (foldl (\<lambda>d kv. AList.update (fst kv) (snd kv) d) d0 ps))"
  by (induction ps arbitrary: d0) (simp_all add: distinct_update)

lemma foldl_update_set:
  "set (foldl (\<lambda>d kv. AList.update (fst kv) (snd kv) d) d0 ps) \<subseteq> set d0 \<union> set ps"
proof (induction ps arbitrary: d0)
  case Nil
  then show ?case by simp
next
  case (Cons p ps)
  have "set (AList.update k v d) \<subseteq> set d \<union> {(k, v)}" for k :: 'a and v :: 'b and d
    by (induction d) auto
  from this[of "fst p" "snd p" d0]
  have "set (AList.update (fst p) (snd p) d0) \<subseteq> set d0 \<union> {p}" by simp
  with Cons.IH[of "AList.update (fst p) (snd p) d0"] show ?case by auto
qed

lemma dict_of_pairs_map_of:
  "map_of (dict_of_pairs ps) k = map_of (rev ps) k"
  by (simp add: dict_of_pairs_def foldl_update_map_of split: option.splits)

lemma dict_of_pairs_distinct: "distinct (map fst (dict_of_pairs ps))"
  by (simp add: dict_of_pairs_def foldl_update_distinct)

lemma dict_of_pairs_set: "set (dict_of_pairs ps) \<subseteq> set ps"
  using foldl_update_set[of "[]" ps] by (simp add: dict_of_pairs_def)

lemma load_keys: "map fst (snd (load_tools_if_needed load_tool tools)) = map fst tools"
  by (induction load_tool tools rule: load_tools_if_needed.induct) (auto split: prod.splits sum.splits)


lemma load_error:
  "load_tools_if_needed load_tool tools = (Some e, tools') \<Longrightarrow>
     \<exists>p. Deferred p \<in> snd ` set tools \<and> load_tool (task_or_repo_id p) = Inl e"
proof (induction load_tool tools arbitrary: tools' rule: load_tools_if_needed.induct)
  case (1 load_tool)
  then show ?case by simp
next
  case (2 load_tool nm t rest)
  then show ?case by (force split: prod.splits)
next
  case (3 load_tool nm p rest)
  show ?case
  proof (cases "load_tool (task_or_repo_id p)")
    case (Inl e')
    with "3.prems" have "e' = e" by simp
    with Inl show ?thesis by force
  next
    case (Inr t)
    with "3.prems" obtain rest' where "load_tools_if_needed load_tool rest = (Some e, rest')"
      by (auto split: prod.splits)
    from "3.IH"[OF Inr this] obtain q where "Deferred q \<in> snd ` set rest"
      and "load_tool (task_or_repo_id q) = Inl e" by blast
    then show ?thesis by (intro exI[of _ q]) auto
  qed
qed





lemma load_keeps_concrete:
  "load_tools_if_needed load_tool tools = (None, tools') \<Longrightarrow>
   map_of tools k = Some (Concrete t) \<Longrightarrow> map_of tools' k = Some (Concrete t)"
  by (induction load_tool tools arbitrary: tools' rule: load_tools_if_needed.induct)
     (auto split: prod.splits sum.splits if_splits)










lemma Toolbox_init_error:
  assumes "fst (Toolbox_init setup_default_tools load_tool g tools False) = Inl e"
  shows "\<exists>p. Deferred p \<in> set tools \<and> load_tool (task_or_repo_id p) = Inl e"
proof -
  let ?d = "dict_of_pairs (map (\<lambda>tool. (entry_name tool, tool)) tools)"
  from assms obtain tools' where "load_tools_if_needed load_tool ?d = (Some e, tools')"
    by (auto simp: Toolbox_init_def Let_def split: prod.splits option.splits)
  from load_error[OF this] obtain p where p: "Deferred p \<in> snd ` set ?d"
    and l: "load_tool (task_or_repo_id p) = Inl e" by blast
  have "snd ` set ?d \<subseteq> set tools"
    using dict_of_pairs_set[of "map (\<lambda>tool. (entry_name tool, tool)) tools"] by auto
  with p l show ?thesis by blast
qed

lemma Toolbox_init_last:
  assumes "fst (Toolbox_init setup_default_tools load_tool g (xs @ Concrete t # ys) False) = Inr tools'"
    and "name t \<notin> entry_name ` set ys"
  shows "map_of tools' (name t) = Some (Concrete t) \<and> distinct (map fst tools')"
proof -
  let ?ps = "map (\<lambda>tool. (entry_name tool, tool)) (xs @ Concrete t # ys)"
  from assms(1) have l: "load_tools_if_needed load_tool (dict_of_pairs ?ps) = (None, tools')"
    by (auto simp: Toolbox_init_def Let_def split: prod.splits option.splits)
  have "map_of (rev (map (\<lambda>tool. (entry_name tool, tool)) ys)) (name t) = None"
    using assms(2) by (simp add: map_of_eq_None_iff image_image)
  then have "map_of (rev ?ps) (name t) = Some (Concrete t)"
    by (simp add: map_add_def)
  then have "map_of (dict_of_pairs ?ps) (name t) = Some (Concrete t)"
    by (simp only: dict_of_pairs_map_of)
  from load_keeps_concrete[OF l this] have a: "map_of tools' (name t) = Some (Concrete t)" .
  have "map fst tools' = map fst (dict_of_pairs ?ps)"
    using load_keys[of load_tool "dict_of_pairs ?ps"] l by simp
  then have "distinct (map fst tools')" by (simp add: dict_of_pairs_distinct)
  with a show ?thesis by simp
qed

text \<open>
  Claim C10. Without the base tools, the constructor raises only what \<open>load_tool\<close> raises
  for a \<open>PreTool\<close> of the list, never an error for a name that occurs twice: when it
  returns, no name occurs twice among the keys, and a name is bound to the last tool of
  the list that bears it (for a \<open>Tool\<close>, which the loading leaves as it is). From two tools
  with one name it builds the toolbox that holds the second only. \<open>add_tool\<close> raises
  \<open>KeyError\<close> for a name that is already a key.
\<close>

theorem constructor_keeps_last_duplicate:
  "(fst (Toolbox_init setup_default_tools load_tool g tools False) = Inl e \<longrightarrow>
      (\<exists>p. Deferred p \<in> set tools \<and> load_tool (task_or_repo_id p) = Inl e))
   \<and> (fst (Toolbox_init setup_default_tools load_tool g (xs @ Concrete t # ys) False) = Inr tools1
        \<and> name t \<notin> entry_name ` set ys \<longrightarrow>
      map_of tools1 (name t) = Some (Concrete t) \<and> distinct (map fst tools1))
   \<and> fst (Toolbox_init setup_default_tools load_tool g
              [Concrete (Tool n d1 i1 o1 f1), Concrete (Tool n d2 i2 o2 f2)] False)
        = Inr [(n, Concrete (Tool n d2 i2 o2 f2))]
   \<and> (entry_name tool \<in> fst ` set tools2 \<longrightarrow>
        add_tool tools2 tool = Inl (Exn KeyError (''Error: tool '' @ [CHR 0x27] @ entry_name tool
          @ [CHR 0x27] @ '' already exists in the toolbox.'')))"
proof -
  have third: "fst (Toolbox_init setup_default_tools load_tool g
              [Concrete (Tool n d1 i1 o1 f1), Concrete (Tool n d2 i2 o2 f2)] False)
        = Inr [(n, Concrete (Tool n d2 i2 o2 f2))]"
    by (simp add: Toolbox_init_def dict_of_pairs_def)
  show ?thesis
    using Toolbox_init_error[of setup_default_tools load_tool g tools e]
      Toolbox_init_last[of setup_default_tools load_tool g xs t ys tools1] third
    by (simp add: add_tool_def)
qed

text \<open>Two tools named \<open>search\<close>, then a third added with \<open>add_tool\<close>.\<close>

theorem constructor_keeps_last_duplicate_witness:
  "fst (Toolbox_init (Inr []) (\<lambda>i. Inl (Exn ValueError ''no such tool''))
         \<lparr>tools_are_initialized = False, HUGGINGFACE_DEFAULT_TOOLS = []\<rparr>
         ([Concrete (Tool ''search'' ''first'' [] ''text'' (\<lambda>a. Inr (PStr ''1'')))]
           @ Concrete (Tool ''search'' ''second'' [] ''text'' (\<lambda>a. Inr (PStr ''2''))) # []) False)
     = Inr [(''search'', Concrete (Tool ''search'' ''second'' [] ''text'' (\<lambda>a. Inr (PStr ''2'')) :: unit tool))]
   \<and> map_of [(''search'', Concrete (Tool ''search'' ''second'' [] ''text'' (\<lambda>a. Inr (PStr ''2'')) :: unit tool))]
        ''search''
     = Some (Concrete (Tool ''search'' ''second'' [] ''text'' (\<lambda>a. Inr (PStr ''2''))))
   \<and> add_tool [(''search'', Concrete (Tool ''search'' ''second'' [] ''text'' (\<lambda>a. Inr (PStr ''2'')) :: unit tool))]
        (Concrete (Tool ''search'' ''third'' [] ''text'' (\<lambda>a. Inr (PStr ''3''))))
     = Inl (Exn KeyError (''Error: tool '' @ [CHR 0x27] @ ''search'' @ [CHR 0x27]
          @ '' already exists in the toolbox.''))"
proof -
  let ?t2 = "Tool ''search'' ''second'' [] ''text'' (\<lambda>a. Inr (PStr ''2'')) :: unit tool"
  let ?tools = "[Concrete (Tool ''search'' ''first'' [] ''text'' (\<lambda>a. Inr (PStr ''1'')))] @ Concrete ?t2 # []"
  let ?init = "Toolbox_init (Inr []) (\<lambda>i. Inl (Exn ValueError ''no such tool''))
         \<lparr>tools_are_initialized = False, HUGGINGFACE_DEFAULT_TOOLS = []\<rparr> ?tools False"
  have h: "fst ?init = Inr [(''search'', Concrete ?t2)]"
    by (simp add: Toolbox_init_def dict_of_pairs_def)
  have h2: "name ?t2 \<notin> entry_name ` set ([] :: unit entry list)" by simp
  have h3: "entry_name (Concrete (Tool ''search'' ''third'' [] ''text'' (\<lambda>a. Inr (PStr ''3''))) :: unit entry)
      \<in> fst ` set [(''search'', Concrete ?t2)]" by simp
  note inst = constructor_keeps_last_duplicate[of "Inr []" "\<lambda>i. Inl (Exn ValueError ''no such tool'')"
      "\<lparr>tools_are_initialized = False, HUGGINGFACE_DEFAULT_TOOLS = []\<rparr>" "[]" undefined
      "[Concrete (Tool ''search'' ''first'' [] ''text'' (\<lambda>a. Inr (PStr ''1'')))]" ?t2 "[]"
      "[(''search'', Concrete ?t2)]" "''x''" "''x''" "[]" "''x''" "(\<lambda>a. Inr (PStr ''2''))" "''x''" "[]" "''x''" "(\<lambda>a. Inr (PStr ''2''))"
      "Concrete (Tool ''search'' ''third'' [] ''text'' (\<lambda>a. Inr (PStr ''3'')))" "[(''search'', Concrete ?t2)]"]
  from inst h h2 have a: "map_of [(''search'', Concrete ?t2)] (name ?t2) = Some (Concrete ?t2)" by blast
  from inst h3 have b: "add_tool [(''search'', Concrete ?t2)]
        (Concrete (Tool ''search'' ''third'' [] ''text'' (\<lambda>a. Inr (PStr ''3''))))
     = Inl (Exn KeyError (''Error: tool '' @ [CHR 0x27]
          @ entry_name (Concrete (Tool ''search'' ''third'' [] ''text'' (\<lambda>a. Inr (PStr ''3''))) :: unit entry)
          @ [CHR 0x27] @ '' already exists in the toolbox.''))" by blast
  from h a b show ?thesis by simp
qed



section \<open>The single-shot run\<close>

text \<open>\<open>pat in s\<close> is the sublist relation of the library.\<close>

lemma py_contains_sublist: "py_contains pat s = sublist pat s"
  by (induction s) (auto simp: sublist_Cons_right)

lemma search_fence_none: "\<not> py_contains fence s \<Longrightarrow> search_fence s = None"
  by (induction s) (auto simp: match_fence_def fence_def)

lemma split_from_pieces:
  "x \<in> set (split_from sep acc s) \<Longrightarrow> sublist x (acc @ s)"
proof (induction sep acc s rule: split_from.induct)
  case (1 sep acc)
  then show ?case by simp
next
  case (2 sep acc c cs)
  show ?case
  proof (cases "sep \<noteq> [] \<and> prefix sep (c # cs)")
    case True
    with "2.prems" have "x = acc \<or> x \<in> set (split_from sep [] (drop (length sep) (c # cs)))"
      by simp
    then show ?thesis
    proof
      assume "x = acc"
      then show ?thesis by (simp add: sublist_append_rightI)
    next
      assume "x \<in> set (split_from sep [] (drop (length sep) (c # cs)))"
      from "2.IH"(1)[OF True this] have "sublist x (drop (length sep) (c # cs))" by simp
      then have "sublist x (c # cs)"
        by (rule sublist_order.order_trans) (rule sublist_drop)
      then show ?thesis
        by (rule sublist_order.order_trans) (rule sublist_append_leftI)
    qed
  next
    case False
    with "2.prems" have "x \<in> set (split_from sep (acc @ [c]) cs)" by auto
    from "2.IH"(2)[OF False this] show ?thesis by simp
  qed
qed

lemma action_text_sublist: "sublist (action_text s) s"
proof -
  have "last (py_split ''Code:'' s) \<in> set (py_split ''Code:'' s)" if "length (py_split ''Code:'' s) \<ge> 2"
    using that by (intro last_in_set) auto
  then show ?thesis
    using split_from_pieces[of _ "''Code:''" "[]" s]
    by (auto simp: action_text_def extract_action_def Let_def py_split_def split: sum.splits)
qed

lemma no_fence_no_code:
  assumes "\<not> py_contains fence llm_output"
  shows "parse_code_blob (action_text llm_output) = Inl (Exn ValueError (invalid_code_msg none_group_msg))"
proof -
  have "\<not> sublist fence (action_text llm_output)"
    using assms action_text_sublist[of llm_output] by (metis py_contains_sublist sublist_order.order_trans)
  then have "search_fence (action_text llm_output) = None"
    by (simp add: search_fence_none py_contains_sublist)
  then show ?thesis by (simp add: parse_code_blob_def)
qed



text \<open>
  Claim C1, amended. In a run that is not asked for the generated code and whose
  initialization succeeds: when the engine returns an output, \<open>run\<close> returns a value; when
  the output has no fence, and whenever the code cannot be parsed, the value is the
  string that reports the parsing error; when the evaluator raises, the value is the
  string that reports the execution error. When the engine itself raises, \<open>run\<close> raises the
  same exception.
\<close>

theorem run_returns_after_model_output:
  assumes "initialize_for_run ext agent (task_with_arguments ext tsk kwargs) = Inr (system_prompt, logs)"
  shows "(llm_engine ext
            [Message SYSTEM system_prompt, Message USER (''Task: '' @ task_with_arguments ext tsk kwargs)]
            [''<end_action>''] = Inr llm_output \<longrightarrow>
          (\<exists>v. run ext agent tsk False kwargs = Inr v)
        \<and> (\<not> py_contains fence llm_output \<longrightarrow>
             run ext agent tsk False kwargs =
               Inr (PStr (''Error in code parsing: '' @ invalid_code_msg none_group_msg
                 @ ''. Be sure to provide correct code'')))
        \<and> (\<forall>e. parse_code_blob (action_text llm_output) = Inl e \<longrightarrow>
             run ext agent tsk False kwargs =
               Inr (PStr (''Error in code parsing: '' @ exn_str e
                 @ ''. Be sure to provide correct code'')))
        \<and> (\<forall>code e st. parse_code_blob (action_text llm_output) = Inr code
               \<and> python_evaluator ext code (available_tools ext agent) kwargs
                    (authorized_imports agent) = (Inl e, st) \<longrightarrow>
             run ext agent tsk False kwargs =
               Inr (PStr (''Error in execution: '' @ exn_str e
                 @ ''. Be sure to provide correct code.''))))
     \<and> (llm_engine ext
            [Message SYSTEM system_prompt, Message USER (''Task: '' @ task_with_arguments ext tsk kwargs)]
            [''<end_action>''] = Inl e' \<longrightarrow>
          run ext agent tsk False kwargs = Inl e')"
proof -
  let ?prompt = "[Message SYSTEM system_prompt, Message USER (''Task: '' @ task_with_arguments ext tsk kwargs)]"
  have raises: "run ext agent tsk False kwargs = Inl e'"
    if "llm_engine ext ?prompt [''<end_action>''] = Inl e'"
    using assms that by (simp add: run_def)
  have returns: "\<exists>v. run ext agent tsk False kwargs = Inr v"
    if "llm_engine ext ?prompt [''<end_action>''] = Inr llm_output"
    using assms that by (auto simp: run_def split: sum.splits prod.splits option.splits)
  have parse: "run ext agent tsk False kwargs = Inr (PStr (''Error in code parsing: '' @ exn_str e
                 @ ''. Be sure to provide correct code''))"
    if "llm_engine ext ?prompt [''<end_action>''] = Inr llm_output"
      and "parse_code_blob (action_text llm_output) = Inl e" for e
    using assms that by (simp add: run_def code_parsing_error_def)
  have nofence: "run ext agent tsk False kwargs = Inr (PStr (''Error in code parsing: ''
                 @ invalid_code_msg none_group_msg @ ''. Be sure to provide correct code''))"
    if "llm_engine ext ?prompt [''<end_action>''] = Inr llm_output"
      and "\<not> py_contains fence llm_output"
    using parse[OF that(1) no_fence_no_code[OF that(2)]] by simp
  have exec: "run ext agent tsk False kwargs = Inr (PStr (''Error in execution: '' @ exn_str e
                 @ ''. Be sure to provide correct code.''))"
    if "llm_engine ext ?prompt [''<end_action>''] = Inr llm_output"
      and "parse_code_blob (action_text llm_output) = Inr code"
      and "python_evaluator ext code (available_tools ext agent) kwargs (authorized_imports agent) = (Inl e, st)"
    for code e st
    using assms that by (simp add: run_def execution_error_def)
  from raises returns parse nofence exec show ?thesis by blast
qed

text \<open>
  Claim C1 as stated fails for a failure of the model: the call of the engine is outside
  every \<open>try\<close>, and \<open>run\<close> raises what the engine raises.
\<close>

theorem model_failure_propagates:
  "run 
      \<lparr>llm_engine = (\<lambda>messages stop. Inl (Exn (OtherException ''TimeoutError'') ''the model endpoint timed out'')),
        python_evaluator = (\<lambda>code tools state imports. (Inr (PStr code), state)),
        describe_tool = (\<lambda>tool template. []),
        str_kwargs = (\<lambda>kwargs. []),
        BASE_PYTHON_TOOLS = ([] :: (string \<times> unit) list),
        safe_and_authorized = []\<rparr>
       
      \<lparr>toolbox = ([] :: unit toolbox), system_prompt_template = ''<<authorized_imports>>'',
        tool_description_template = [], authorized_imports = []\<rparr> ''What is 2 + 2?'' False []
     = Inl (Exn (OtherException ''TimeoutError'') ''the model endpoint timed out'')"
  by (simp add: run_def initialize_for_run_def format_prompt_with_imports_def
      format_prompt_with_tools_def show_tool_descriptions_def task_with_arguments_def)

text \<open>An engine whose output has no code: the caller gets the parsing error as a string.\<close>

theorem run_returns_after_model_output_witness:
  "initialize_for_run 
      \<lparr>llm_engine = (\<lambda>messages stop. Inr ''I cannot write code for this.''),
        python_evaluator = (\<lambda>code tools state imports. (Inr (PStr code), state)),
        describe_tool = (\<lambda>tool template. []),
        str_kwargs = (\<lambda>kwargs. []),
        BASE_PYTHON_TOOLS = ([] :: (string \<times> unit) list),
        safe_and_authorized = []\<rparr> 
      \<lparr>toolbox = ([] :: unit toolbox), system_prompt_template = ''<<authorized_imports>>'',
        tool_description_template = [], authorized_imports = []\<rparr> (task_with_arguments 
      \<lparr>llm_engine = (\<lambda>messages stop. Inr ''I cannot write code for this.''),
        python_evaluator = (\<lambda>code tools state imports. (Inr (PStr code), state)),
        describe_tool = (\<lambda>tool template. []),
        str_kwargs = (\<lambda>kwargs. []),
        BASE_PYTHON_TOOLS = ([] :: (string \<times> unit) list),
        safe_and_authorized = []\<rparr> ''What is 2 + 2?'' [])
     = Inr (''[]'', [[''system_prompt'' \<mapsto> ''[]'', ''task'' \<mapsto> ''What is 2 + 2?'']])
   \<and> llm_engine 
      \<lparr>llm_engine = (\<lambda>messages stop. Inr ''I cannot write code for this.''),
        python_evaluator = (\<lambda>code tools state imports. (Inr (PStr code), state)),
        describe_tool = (\<lambda>tool template. []),
        str_kwargs = (\<lambda>kwargs. []),
        BASE_PYTHON_TOOLS = ([] :: (string \<times> unit) list),
        safe_and_authorized = []\<rparr> [Message SYSTEM ''[]'', Message USER ''Task: What is 2 + 2?''] [''<end_action>'']
     = Inr ''I cannot write code for this.''
   \<and> \<not> py_contains fence ''I cannot write code for this.''
   \<and> run 
      \<lparr>llm_engine = (\<lambda>messages stop. Inr ''I cannot write code for this.''),
        python_evaluator = (\<lambda>code tools state imports. (Inr (PStr code), state)),
        describe_tool = (\<lambda>tool template. []),
        str_kwargs = (\<lambda>kwargs. []),
        BASE_PYTHON_TOOLS = ([] :: (string \<times> unit) list),
        safe_and_authorized = []\<rparr> 
      \<lparr>toolbox = ([] :: unit toolbox), system_prompt_template = ''<<authorized_imports>>'',
        tool_description_template = [], authorized_imports = []\<rparr> ''What is 2 + 2?'' False []
     = Inr (PStr (''Error in code parsing: '' @ invalid_code_msg none_group_msg
         @ ''. Be sure to provide correct code''))"
proof -
  let ?E = "
      \<lparr>llm_engine = (\<lambda>messages stop. Inr ''I cannot write code for this.''),
        python_evaluator = (\<lambda>code tools state imports. (Inr (PStr code), state)),
        describe_tool = (\<lambda>tool template. []),
        str_kwargs = (\<lambda>kwargs. []),
        BASE_PYTHON_TOOLS = ([] :: (string \<times> unit) list),
        safe_and_authorized = []\<rparr>"
  let ?A = "
      \<lparr>toolbox = ([] :: unit toolbox), system_prompt_template = ''<<authorized_imports>>'',
        tool_description_template = [], authorized_imports = []\<rparr>"
  have t: "task_with_arguments ?E ''What is 2 + 2?'' [] = ''What is 2 + 2?''"
    by (simp add: task_with_arguments_def)
  have h: "initialize_for_run ?E ?A (task_with_arguments ?E ''What is 2 + 2?'' [])
     = Inr (''[]'', [[''system_prompt'' \<mapsto> ''[]'', ''task'' \<mapsto> ''What is 2 + 2?'']])"
    by (simp add: t initialize_for_run_def format_prompt_with_imports_def
      format_prompt_with_tools_def show_tool_descriptions_def repr_str_list_def)
  have m: "llm_engine ?E [Message SYSTEM ''[]'', Message USER (''Task: '' @ task_with_arguments ?E ''What is 2 + 2?'' [])]
      [''<end_action>''] = Inr ''I cannot write code for this.''"
    by simp
  have n: "\<not> py_contains fence ''I cannot write code for this.''"
    by (simp add: fence_def)
  from run_returns_after_model_output[OF h, of "''I cannot write code for this.''"] m n
  have "run ?E ?A ''What is 2 + 2?'' False []
     = Inr (PStr (''Error in code parsing: '' @ invalid_code_msg none_group_msg
         @ ''. Be sure to provide correct code''))"
    by blast
  with h m n t show ?thesis by simp
qed


section \<open>Properties of the string operations\<close>

lemma py_replace_absent:
  "pat \<noteq> [] \<Longrightarrow> \<not> sublist pat s \<Longrightarrow> py_replace pat rep s = s"
  by (induction s) (auto simp: sublist_Cons_right)

lemma py_replace_erase_set: "pat \<noteq> [] \<Longrightarrow> set (py_replace pat [] s) \<subseteq> set s"
proof (induction "length s" arbitrary: s rule: less_induct)
  case less
  show ?case
  proof (cases s)
    case Nil
    then show ?thesis using less.prems by simp
  next
    case (Cons c cs)
    show ?thesis
    proof (cases "prefix pat (c # cs)")
      case True
      have "length (drop (length pat) (c # cs)) < length s"
        using Cons less.prems by (cases pat) auto
      from less.hyps[OF this less.prems]
      have "set (py_replace pat [] (drop (length pat) (c # cs))) \<subseteq> set (drop (length pat) (c # cs))" .
      also have "\<dots> \<subseteq> set (c # cs)" by (rule set_drop_subset)
      finally show ?thesis using True Cons less.prems by simp
    next
      case False
      have "length cs < length s" using Cons by simp
      from less.hyps[OF this less.prems] show ?thesis using False Cons less.prems by auto
    qed
  qed
qed

lemma prefix_append_cases:
  assumes "prefix pat (a @ b)"
  shows "prefix pat a \<or> (\<exists>us. us \<noteq> [] \<and> pat = a @ us \<and> prefix us b)"
  using assms by (auto simp: prefix_append)

lemma prefix_left_of_boundary:
  assumes "prefix pat (a @ b)" and "b = [] \<or> hd b \<notin> set pat"
  shows "prefix pat a"
proof -
  from prefix_append_cases[OF assms(1)] show ?thesis
  proof
    assume "prefix pat a" then show ?thesis .
  next
    assume "\<exists>us. us \<noteq> [] \<and> pat = a @ us \<and> prefix us b"
    then obtain us where us: "us \<noteq> []" "pat = a @ us" "prefix us b" by blast
    then have "b \<noteq> []" and "hd b = hd us" by (auto simp: prefix_def)
    with us assms(2) show ?thesis by (cases us) auto
  qed
qed

lemma prefix_left_of_last:
  assumes "prefix pat (a @ b)" and "a \<noteq> []" and "last a \<notin> set pat"
  shows "prefix pat a \<and> drop (length pat) a \<noteq> []"
proof -
  have no: "\<not> prefix a pat"
  proof
    assume "prefix a pat"
    then have "set a \<subseteq> set pat" by (auto simp: prefix_def)
    with assms(2,3) show False using last_in_set by blast
  qed
  from prefix_append_cases[OF assms(1)] no have p: "prefix pat a" by (auto simp: prefix_def)
  moreover have "drop (length pat) a \<noteq> []"
  proof
    assume "drop (length pat) a = []"
    with p have "a = pat" by (auto simp: prefix_def)
    with no show False by simp
  qed
  ultimately show ?thesis by simp
qed

lemma py_replace_before_foreign:
  assumes "pat \<noteq> []" and "b = [] \<or> hd b \<notin> set pat"
  shows "py_replace pat rep (a @ b) = py_replace pat rep a @ py_replace pat rep b"
proof (induction "length a" arbitrary: a rule: less_induct)
  case less
  show ?case
  proof (cases a)
    case Nil
    then show ?thesis using assms(1) by simp
  next
    case (Cons c cs)
    show ?thesis
    proof (cases "prefix pat (c # cs)")
      case True
      then have le: "length pat \<le> length (c # cs)" by (rule prefix_length_le)
      have pre: "prefix pat (c # cs @ b)" using True by (metis append_Cons prefix_prefix)
      have "length (drop (length pat) (c # cs)) < length a"
        using Cons assms(1) by (cases pat) auto
      from less.hyps[OF this]
      have "py_replace pat rep (drop (length pat) (c # cs) @ b) =
            py_replace pat rep (drop (length pat) (c # cs)) @ py_replace pat rep b" .
      moreover have "drop (length pat) (c # cs @ b) = drop (length pat) (c # cs) @ b"
        using le drop_append[of "length pat" "c # cs" b] by simp
      ultimately show ?thesis using True pre Cons assms(1) by simp
    next
      case False
      have "\<not> prefix pat (c # cs @ b)"
        using False prefix_left_of_boundary[of pat "c # cs" b] assms(2) by auto
      moreover have "length cs < length a" using Cons by simp
      ultimately show ?thesis using False Cons assms(1) less.hyps[of cs] by simp
    qed
  qed
qed

lemma py_replace_after_foreign:
  assumes "pat \<noteq> []"
  shows "a \<noteq> [] \<Longrightarrow> last a \<notin> set pat \<Longrightarrow>
         py_replace pat rep (a @ b) = py_replace pat rep a @ py_replace pat rep b"
proof (induction "length a" arbitrary: a rule: less_induct)
  case less
  from less.prems obtain c cs where Cons: "a = c # cs" by (cases a) auto
  show ?case
  proof (cases "prefix pat (c # cs @ b)")
    case True
    from prefix_left_of_last[of pat a b] True less.prems Cons
    have pa: "prefix pat (c # cs)" and ne: "drop (length pat) (c # cs) \<noteq> []" by auto
    from pa have le: "length pat \<le> length (c # cs)" by (rule prefix_length_le)
    have len: "length (drop (length pat) (c # cs)) < length a"
      using Cons assms by (cases pat) auto
    have "last (drop (length pat) (c # cs)) = last a"
      using ne Cons by (simp add: last_drop)
    with less.prems have "last (drop (length pat) (c # cs)) \<notin> set pat" by simp
    from less.hyps[OF len ne this]
    have "py_replace pat rep (drop (length pat) (c # cs) @ b) =
          py_replace pat rep (drop (length pat) (c # cs)) @ py_replace pat rep b" .
    moreover have "drop (length pat) (c # cs @ b) = drop (length pat) (c # cs) @ b"
      using le drop_append[of "length pat" "c # cs" b] by simp
    ultimately show ?thesis using True pa Cons assms by simp
  next
    case False
    then have np: "\<not> prefix pat (c # cs)" by (metis append_Cons prefix_prefix)
    show ?thesis
    proof (cases cs)
      case Nil
      then show ?thesis using False np Cons assms by simp
    next
      case (Cons d ds)
      then have "last cs \<notin> set pat" using less.prems \<open>a = c # cs\<close> by simp
      moreover have "length cs < length a" using \<open>a = c # cs\<close> by simp
      moreover have "cs \<noteq> []" using Cons by simp
      ultimately have "py_replace pat rep (cs @ b) = py_replace pat rep cs @ py_replace pat rep b"
        using less.hyps by blast
      then show ?thesis using False np \<open>a = c # cs\<close> assms by simp
    qed
  qed
qed


lemma find_from_skip:
  "c \<notin> set p \<Longrightarrow> find_from [c] (p @ c # r) i = int (i + length p)"
  by (induction p arbitrary: i) auto

lemma positions_from_append:
  "positions_from c (a @ b) i = positions_from c a i @ positions_from c b (i + length a)"
  by (induction a arbitrary: i) auto

lemma positions_from_absent: "c \<notin> set s \<Longrightarrow> positions_from c s i = []"
  by (induction s arbitrary: i) auto

lemma finditer_starts_last:
  assumes "c \<notin> set s"
  shows "finditer_starts c (a @ c # s) \<noteq> [] \<and> last (finditer_starts c (a @ c # s)) = length a"
  using assms by (simp add: finditer_starts_def positions_from_append positions_from_absent)

lemma py_slice_middle:
  "py_slice (a @ b @ c) (int (length a)) (int (length a + length b)) = b"
  by (simp add: py_slice_def clip_index_def Let_def)

lemma parse_json_blob_slice:
  assumes "CHR ''{'' \<notin> set p" and "CHR ''}'' \<notin> set s"
    and "obj \<noteq> []" and "hd obj = CHR ''{''" and "last obj = CHR ''}''"
  shows "py_find ''{'' (p @ obj @ s) = int (length p)"
    and "finditer_starts CHR ''}'' (p @ obj @ s) \<noteq> []"
    and "int (last (finditer_starts CHR ''}'' (p @ obj @ s))) + 1 = int (length p + length obj)"
proof -
  from assms(3,4) obtain r where r: "obj = CHR ''{'' # r" by (cases obj) auto
  from assms(3,5) obtain b where b: "obj = b @ [CHR ''}'']" by (metis append_butlast_last_id)
  show "py_find ''{'' (p @ obj @ s) = int (length p)"
    using find_from_skip[OF assms(1), of "r @ s" 0] r by (simp add: py_find_def)
  have eq: "p @ obj @ s = (p @ b) @ CHR ''}'' # s" using b by simp
  from finditer_starts_last[OF assms(2), of "p @ b"]
  show "finditer_starts CHR ''}'' (p @ obj @ s) \<noteq> []"
    and "int (last (finditer_starts CHR ''}'' (p @ obj @ s))) + 1 = int (length p + length obj)"
    unfolding eq using b by simp_all
qed

lemma parse_json_blob_noise:
  assumes "CHR ''{'' \<notin> set p" and "CHR ''}'' \<notin> set s"
    and "obj \<noteq> []" and "hd obj = CHR ''{''" and "last obj = CHR ''}''"
  shows "parse_json_blob (p @ obj @ s) = parse_json_blob obj"
proof -
  have cut: "py_slice (q @ obj @ t) (py_find ''{'' (q @ obj @ t))
               (int (last (finditer_starts CHR ''}'' (q @ obj @ t))) + 1) = obj"
       and ne: "finditer_starts CHR ''}'' (q @ obj @ t) \<noteq> []"
    if "CHR ''{'' \<notin> set q" and "CHR ''}'' \<notin> set t" for q t
    using parse_json_blob_slice[OF that assms(3,4,5)] py_slice_middle[of q obj t] by simp_all
  have l: "parse_json_blob (q @ obj @ t) =
      decode_json_blob (py_replace [CHR 0x5C, CHR 0x22] [CHR 0x27] obj)"
    if "CHR ''{'' \<notin> set q" and "CHR ''}'' \<notin> set t" for q t
    unfolding parse_json_blob_def Let_def using cut[OF that] ne[OF that] by simp
  from l[OF assms(1,2)] l[of "[]" "[]"] show ?thesis by simp
qed


section \<open>The JSON tool call\<close>

lemma fences_removed:
  assumes "obj \<noteq> []" and "hd obj = CHR ''{''" and "last obj = CHR ''}''"
    and "\<not> py_contains fence obj"
  shows "py_replace fence [] (py_replace ''```json'' [] (p @ obj @ s)) =
         py_replace fence [] (py_replace ''```json'' [] p) @ obj
           @ py_replace fence [] (py_replace ''```json'' [] s)"
proof -
  have nf: "\<not> sublist fence obj" using assms(4) by (simp add: py_contains_sublist)
  have "sublist fence ''```json''" by (simp add: fence_def sublist_code)
  then have nj: "\<not> sublist ''```json'' obj"
    using nf sublist_order.order_trans by blast
  have one: "py_replace pat [] (q @ obj @ t) = py_replace pat [] q @ obj @ py_replace pat [] t"
    if "pat \<noteq> []" and "CHR ''{'' \<notin> set pat" and "CHR ''}'' \<notin> set pat" and "\<not> sublist pat obj"
    for pat q t
  proof -
    have "hd (obj @ t) \<notin> set pat" using assms(1,2) that(2) by simp
    then have "py_replace pat [] (q @ obj @ t) = py_replace pat [] q @ py_replace pat [] (obj @ t)"
      using py_replace_before_foreign[OF that(1), of "obj @ t" "[]" q] by simp
    also have "py_replace pat [] (obj @ t) = py_replace pat [] obj @ py_replace pat [] t"
      using py_replace_after_foreign[OF that(1) assms(1), of "[]" t] assms(3) that(3) by simp
    also have "py_replace pat [] obj = obj"
      by (rule py_replace_absent[OF that(1) that(4)])
    finally show ?thesis by simp
  qed
  have "py_replace ''```json'' [] (p @ obj @ s) =
        py_replace ''```json'' [] p @ obj @ py_replace ''```json'' [] s"
    by (rule one) (use nj in simp_all)
  moreover have "py_replace fence [] (py_replace ''```json'' [] p @ obj @ py_replace ''```json'' [] s) =
        py_replace fence [] (py_replace ''```json'' [] p) @ obj
          @ py_replace fence [] (py_replace ''```json'' [] s)"
    by (rule one) (use nf in \<open>simp_all add: fence_def\<close>)
  ultimately show ?thesis by simp
qed

text \<open>
  Claim C2, amended. Let \<open>obj\<close> be the text of a JSON object, from its \<open>{\<close> to its \<open>}\<close>, that
  \<open>json.loads\<close> decodes to a dict with the key \<open>action\<close>, and that holds neither a fence
  nor a backslash followed by a double quote. Before it stands any text without \<open>{\<close>,
  after it any text without \<open>}\<close>. Then \<open>parse_json_tool_call\<close> returns the value of
  \<open>action\<close> with the value of \<open>action_input\<close>, or with \<open>None\<close> when the dict has no such key.
\<close>

theorem parse_json_tool_call_embedded:
  assumes "CHR ''{'' \<notin> set p" and "CHR ''}'' \<notin> set s"
    and "hd obj = CHR ''{''" and "last obj = CHR ''}''"
    and "\<not> py_contains fence obj" and "\<not> py_contains [CHR 0x5C, CHR 0x22] obj"
    and "json_loads obj = Inr (JObject d)"
    and "map_of d (ustr ''action'') = Some action"
  shows "parse_json_tool_call repr_json (p @ obj @ s) =
           Inr (action, case map_of d (ustr ''action_input'') of Some v \<Rightarrow> v | None \<Rightarrow> JNull)"
proof -
  have ne: "obj \<noteq> []"
    using assms(7) by (auto simp: json_loads_def skip_ws_def ws_len_def)
  let ?p = "py_replace fence [] (py_replace ''```json'' [] p)"
  let ?s = "py_replace fence [] (py_replace ''```json'' [] s)"
  have clean: "py_replace fence [] (py_replace ''```json'' [] (p @ obj @ s)) = ?p @ obj @ ?s"
    by (rule fences_removed[OF ne assms(3,4,5)])
  have "set ?p \<subseteq> set p" and "set ?s \<subseteq> set s"
    using py_replace_erase_set[of fence] py_replace_erase_set[of "''```json''"]
    by (fastforce simp: fence_def)+
  then have p: "CHR ''{'' \<notin> set ?p" and s: "CHR ''}'' \<notin> set ?s"
    using assms(1,2) by auto
  have "parse_json_blob (?p @ obj @ ?s) = parse_json_blob obj"
    by (rule parse_json_blob_noise[OF p s ne assms(3,4)])
  also have "parse_json_blob obj = decode_json_blob (py_replace [CHR 0x5C, CHR 0x22] [CHR 0x27] obj)"
    using parse_json_blob_slice[of "[]" "[]" obj] ne assms(3,4) py_slice_middle[of "[]" obj "[]"]
    by (simp add: parse_json_blob_def Let_def)
  also have "py_replace [CHR 0x5C, CHR 0x22] [CHR 0x27] obj = obj"
    using assms(6) by (intro py_replace_absent) (simp_all add: py_contains_sublist)
  also have "decode_json_blob obj = Inr (JObject d)"
    using assms(7) by (simp add: decode_json_blob_def)
  finally have blob: "parse_json_blob (?p @ obj @ ?s) = Inr (JObject d)" .
  have a: "ustr ''action'' \<in> fst ` set d"
    using assms(8) by (meson domI dom_map_of_conv_image_fst[THEN equalityD1, THEN subsetD])
  show ?thesis
  proof (cases "map_of d (ustr ''action_input'')")
    case None
    then have "ustr ''action_input'' \<notin> fst ` set d" by (simp add: map_of_eq_None_iff)
    then show ?thesis
      using a None assms(8) by (simp add: parse_json_tool_call_def clean blob)
  next
    case (Some v)
    then have "ustr ''action_input'' \<in> fst ` set d"
      by (meson domI dom_map_of_conv_image_fst[THEN equalityD1, THEN subsetD])
    then show ?thesis
      using a Some assms(8) by (simp add: parse_json_tool_call_def clean blob)
  qed
qed


text \<open>
  Claim C2 as stated fails when the text before the object holds a \<open>{\<close> or the text after
  it holds a \<open>}\<close>: the blob is cut at the first \<open>{\<close> and the last \<open>}\<close> of the whole text, and
  the decoder rejects it.
\<close>

theorem brace_in_noise_breaks_parse:
  \<open>json_loads ''{"action":"a"}'' = Inr (JObject [(ustr ''action'', JStr (ustr ''a''))])
   \<and> parse_json_tool_call (\<lambda>j. []) (''I will call {tool}: '' @ ''{"action":"a"}'' @ [])
       = Inl (Exn ValueError (invalid_blob_msg ''{tool}: {"action":"a"}'' expecting_name 1))
   \<and> parse_json_tool_call (\<lambda>j. []) ([] @ ''{"action":"a"}'' @ '' (or {} for none)'')
       = Inl (Exn ValueError (invalid_blob_msg ''{"action":"a"} (or {}'' ''Extra data'' 15))\<close>
  by code_simp

text \<open>A thought, a fenced JSON action and the end marker.\<close>

theorem parse_json_tool_call_embedded_witness:
  \<open>CHR ''{'' \<notin> set ''Thought: I should search.\<newline>Action:\<newline>```json\<newline>''
   \<and> CHR ''}'' \<notin> set ''\<newline>```<end_action>''
   \<and> json_loads ''{"action": "search", "action_input": {"query": "weather"}}''
       = Inr (JObject [(ustr ''action'', JStr (ustr ''search'')),
                       (ustr ''action_input'', JObject [(ustr ''query'', JStr (ustr ''weather''))])])
   \<and> parse_json_tool_call (\<lambda>j. [])
        (''Thought: I should search.\<newline>Action:\<newline>```json\<newline>''
          @ ''{"action": "search", "action_input": {"query": "weather"}}''
          @ ''\<newline>```<end_action>'')
       = Inr (JStr (ustr ''search''), JObject [(ustr ''query'', JStr (ustr ''weather''))])\<close>
proof -
  let ?p = \<open>''Thought: I should search.\<newline>Action:\<newline>```json\<newline>''\<close>
  let ?obj = \<open>''{"action": "search", "action_input": {"query": "weather"}}''\<close>
  let ?s = \<open>''\<newline>```<end_action>''\<close>
  let ?d = "[(ustr ''action'', JStr (ustr ''search'')),
             (ustr ''action_input'', JObject [(ustr ''query'', JStr (ustr ''weather''))])]"
  have h1: "CHR ''{'' \<notin> set ?p" by simp
  have h2: "CHR ''}'' \<notin> set ?s" by simp
  have h3: "hd ?obj = CHR ''{''" by simp
  have h4: "last ?obj = CHR ''}''" by simp
  have h5: "\<not> py_contains fence ?obj" by code_simp
  have h6: "\<not> py_contains [CHR 0x5C, CHR 0x22] ?obj" by code_simp
  have h7: "json_loads ?obj = Inr (JObject ?d)" by code_simp
  have h8: "map_of ?d (ustr ''action'') = Some (JStr (ustr ''search''))" by simp
  have h9: "map_of ?d (ustr ''action_input'') = Some (JObject [(ustr ''query'', JStr (ustr ''weather''))])"
    by code_simp
  from parse_json_tool_call_embedded[OF h1 h2 h3 h4 h5 h6 h7 h8, of "\<lambda>j. []"] h9
  have "parse_json_tool_call (\<lambda>j. []) (?p @ ?obj @ ?s)
       = Inr (JStr (ustr ''search''), JObject [(ustr ''query'', JStr (ustr ''weather''))])"
    by (simp only: option.case)
  with h1 h2 h7 show ?thesis by blast
qed


section \<open>The text tool call\<close>

lemma split_from_absent: "\<not> sublist sep s \<Longrightarrow> split_from sep acc s = [acc @ s]"
  by (induction s arbitrary: acc) (auto simp: sublist_Cons_right)

lemma sublist_before_butlast:
  assumes "sep \<noteq> []" and "last sep \<notin> set (butlast sep)" and "sublist sep (a @ butlast sep)"
  shows "sublist sep a"
proof -
  from assms(3) obtain ps ss where eq: "a @ butlast sep = (ps @ sep) @ ss"
    by (auto simp: sublist_def)
  from iffD1[OF append_eq_append_conv2 eq]
  obtain us where "(a = (ps @ sep) @ us \<and> us @ butlast sep = ss) \<or>
      (a @ us = ps @ sep \<and> butlast sep = us @ ss)"
    by blast
  then show ?thesis
  proof
    assume "a = (ps @ sep) @ us \<and> us @ butlast sep = ss"
    then have "a = ps @ sep @ us" by simp
    then show ?thesis by simp
  next
    assume h: "a @ us = ps @ sep \<and> butlast sep = us @ ss"
    show ?thesis
    proof (cases "us = []")
      case True
      with h have "a = ps @ sep" by simp
      then show ?thesis by simp
    next
      case False
      then have "last us = last (a @ us)" by simp
      also have "\<dots> = last sep" using h assms(1) by simp
      finally have "last sep \<in> set us" using False last_in_set by metis
      with h assms(2) show ?thesis by simp
    qed
  qed
qed

lemma prefix_into_separator:
  assumes "sep \<noteq> []" and "prefix sep (x # xs @ sep @ b)"
  shows "sublist sep (x # xs @ butlast sep)"
proof -
  have "x # xs @ sep @ b = (x # xs @ butlast sep) @ (last sep # b)"
    using assms(1) by simp
  moreover have "length sep \<le> length (x # xs @ butlast sep)" by simp
  ultimately have "prefix sep (x # xs @ butlast sep)"
    using assms(2) by (metis prefix_length_prefix prefixI)
  then show ?thesis by (rule prefix_imp_sublist)
qed

lemma split_from_first:
  assumes "sep \<noteq> []"
  shows "\<not> sublist sep (a @ butlast sep) \<Longrightarrow>
         split_from sep acc (a @ sep @ b) = (acc @ a) # split_from sep [] b"
proof (induction a arbitrary: acc)
  case Nil
  obtain c cs where c: "sep = c # cs" using assms by (cases sep) auto
  then have "split_from sep acc (sep @ b) = acc # split_from sep [] (drop (length sep) (sep @ b))"
    by simp
  then show ?case by simp
next
  case (Cons x xs)
  have np: "\<not> prefix sep (x # xs @ sep @ b)"
    using prefix_into_separator[OF assms] Cons.prems by auto
  have "\<not> sublist sep (xs @ butlast sep)"
    using Cons.prems by (auto simp: sublist_Cons_right)
  from Cons.IH[OF this, of "acc @ [x]"] np show ?case by simp
qed

lemma py_split_absent: "sep \<noteq> [] \<Longrightarrow> \<not> py_contains sep s \<Longrightarrow> py_split sep s = [s]"
  by (simp add: py_split_def split_from_absent py_contains_sublist)

lemma py_split_first:
  assumes "sep \<noteq> []" and "last sep \<notin> set (butlast sep)" and "\<not> py_contains sep a"
  shows "py_split sep (a @ sep @ b) = a # py_split sep b"
proof -
  have "\<not> sublist sep (a @ butlast sep)"
    using sublist_before_butlast[OF assms(1,2)] assms(3) by (auto simp: py_contains_sublist)
  from split_from_first[OF assms(1) this, of "[]" b] show ?thesis
    using assms(1) by (simp add: py_split_def)
qed


lemma contains_middle: "sep \<noteq> [] \<Longrightarrow> py_contains sep (a @ sep @ b)"
  by (simp add: py_contains_sublist)

lemma not_contains_right: "\<not> py_contains sep (a @ b) \<Longrightarrow> \<not> py_contains sep b"
  by (auto simp: py_contains_sublist intro: sublist_order.order_trans)

lemma not_contains_left: "\<not> py_contains sep (a @ b) \<Longrightarrow> \<not> py_contains sep a"
  by (auto simp: py_contains_sublist intro: sublist_order.order_trans)

text \<open>
  Claim C4, amended. \<open>parse_text_tool_call\<close> takes the text before the first
  \<open>Observation:\<close>; of that text it takes what follows the first \<open>Action:\<close>, up to the next
  \<open>Action:\<close> when there is one, and leaves out what follows a second marker; a text of
  the form name, \<open>Action input:\<close>, input, with no other marker, gives the cleaned name
  with the input, parsed as a JSON blob when it holds a \<open>{\<close> and stripped of spaces and
  quotes otherwise. The text \<open>Action:\n"foo"\nAction input: {"x": 1}\nObservation: ...\<close>
  gives \<open>("foo", {"x": 1})\<close>.
\<close>

theorem parse_text_tool_call_steps:
  \<open>(\<not> py_contains ''Observation:'' body \<longrightarrow>
      parse_text_tool_call (body @ ''Observation:'' @ rest) = parse_text_tool_call body)
   \<and> (\<not> py_contains ''Observation:'' (pre @ ''Action:'' @ piece)
        \<and> \<not> py_contains ''Action:'' pre \<and> \<not> py_contains ''Action:'' piece \<longrightarrow>
      parse_text_tool_call (pre @ ''Action:'' @ piece) = parse_text_tool_call piece)
   \<and> (\<not> py_contains ''Observation:'' (pre @ ''Action:'' @ piece @ ''Action:'' @ later)
        \<and> \<not> py_contains ''Action:'' pre \<and> \<not> py_contains ''Action:'' piece \<longrightarrow>
      parse_text_tool_call (pre @ ''Action:'' @ piece @ ''Action:'' @ later) = parse_text_tool_call piece)
   \<and> (\<not> py_contains ''Observation:'' (tool_name @ ''Action input:'' @ tool_input)
        \<and> \<not> py_contains ''Action:'' (tool_name @ ''Action input:'' @ tool_input)
        \<and> \<not> py_contains ''Action input:'' tool_name \<and> \<not> py_contains ''Action input:'' tool_input \<longrightarrow>
      parse_text_tool_call (tool_name @ ''Action input:'' @ tool_input) =
        (if py_contains ''{'' tool_input then
           (case parse_json_blob tool_input of
              Inl e \<Rightarrow> Inl (Exn ValueError (text_tool_call_msg (exn_str e)))
            | Inr v \<Rightarrow> Inr (py_replace [CHR 0x5C] [] (py_replace [CHR 0x22] [] (py_strip tool_name)),
                         JsonInput v))
         else Inr (py_replace [CHR 0x5C] [] (py_replace [CHR 0x22] [] (py_strip tool_name)),
                   TextInput (py_replace [CHR 0x22] [] (py_strip tool_input)))))
   \<and> parse_text_tool_call
        ''Action:\<newline>"foo"\<newline>Action input: {"x": 1}\<newline>Observation: ...''
       = Inr (''foo'', JsonInput (JObject [(ustr ''x'', JInt 1)]))\<close>
proof -
  have obs: "parse_text_tool_call (body @ ''Observation:'' @ rest) = parse_text_tool_call body"
    if "\<not> py_contains ''Observation:'' body"
  proof -
    have "py_split ''Observation:'' (body @ ''Observation:'' @ rest)
            = body # py_split ''Observation:'' rest"
      by (rule py_split_first) (use that in simp_all)
    moreover have "py_contains ''Observation:'' (body @ ''Observation:'' @ rest)"
      by (rule contains_middle) simp
    ultimately show ?thesis using that by (simp add: parse_text_tool_call_def)
  qed
  have act: "parse_text_tool_call (pre @ ''Action:'' @ piece @ tail) = parse_text_tool_call piece"
    if no: "\<not> py_contains ''Observation:'' (pre @ ''Action:'' @ piece @ tail)"
      and pre: "\<not> py_contains ''Action:'' pre" and piece: "\<not> py_contains ''Action:'' piece"
      and tail: "tail = [] \<or> (\<exists>later. tail = ''Action:'' @ later)"
    for tail
  proof -
    have sp: "py_split ''Action:'' (pre @ ''Action:'' @ piece @ tail)
            = pre # py_split ''Action:'' (piece @ tail)"
      by (rule py_split_first) (use pre in simp_all)
    have "py_split ''Action:'' (piece @ tail) ! 0 = piece"
    proof (cases "tail = []")
      case True
      then show ?thesis using piece by (simp add: py_split_absent)
    next
      case False
      with tail obtain later where "tail = ''Action:'' @ later" by blast
      moreover have "py_split ''Action:'' (piece @ ''Action:'' @ later)
            = piece # py_split ''Action:'' later"
        by (rule py_split_first) (use piece in simp_all)
      ultimately show ?thesis by simp
    qed
    then have one: "py_split ''Action:'' (pre @ ''Action:'' @ piece @ tail) ! 1 = piece"
      using sp by simp
    have c: "py_contains ''Action:'' (pre @ ''Action:'' @ piece @ tail)"
      by (rule contains_middle) simp
    have "\<not> py_contains ''Observation:'' (''Action:'' @ piece @ tail)"
      using not_contains_right[OF no] .
    then have "\<not> py_contains ''Observation:'' (piece @ tail)"
      using not_contains_right[of "''Observation:''" "''Action:''" "piece @ tail"] by simp
    then have np: "\<not> py_contains ''Observation:'' piece"
      by (rule not_contains_left)
    show ?thesis
      using no c one np piece by (simp add: parse_text_tool_call_def)
  qed
  have inp: "parse_text_tool_call (tool_name @ ''Action input:'' @ tool_input) =
        text_tool_call tool_name tool_input"
    if "\<not> py_contains ''Observation:'' (tool_name @ ''Action input:'' @ tool_input)"
      and "\<not> py_contains ''Action:'' (tool_name @ ''Action input:'' @ tool_input)"
      and "\<not> py_contains ''Action input:'' tool_name" and "\<not> py_contains ''Action input:'' tool_input"
  proof -
    have "py_split ''Action input:'' (tool_name @ ''Action input:'' @ tool_input)
            = tool_name # py_split ''Action input:'' tool_input"
      by (rule py_split_first) (use that in simp_all)
    then have "py_split ''Action input:'' (tool_name @ ''Action input:'' @ tool_input)
            = [tool_name, tool_input]"
      using that(4) by (simp add: py_split_absent)
    then show ?thesis using that(1,2) by (simp add: parse_text_tool_call_def)
  qed
  have ex: \<open>parse_text_tool_call
        ''Action:\<newline>"foo"\<newline>Action input: {"x": 1}\<newline>Observation: ...''
       = Inr (''foo'', JsonInput (JObject [(ustr ''x'', JInt 1)]))\<close>
    by code_simp
  have c1: \<open>(\<not> py_contains ''Observation:'' body \<longrightarrow>
      parse_text_tool_call (body @ ''Observation:'' @ rest) = parse_text_tool_call body)\<close>
    using obs by blast
  have c2: \<open>(\<not> py_contains ''Observation:'' (pre @ ''Action:'' @ piece)
        \<and> \<not> py_contains ''Action:'' pre \<and> \<not> py_contains ''Action:'' piece \<longrightarrow>
      parse_text_tool_call (pre @ ''Action:'' @ piece) = parse_text_tool_call piece)\<close>
    using act[of "[]"] by simp
  have c3: \<open>(\<not> py_contains ''Observation:'' (pre @ ''Action:'' @ piece @ ''Action:'' @ later)
        \<and> \<not> py_contains ''Action:'' pre \<and> \<not> py_contains ''Action:'' piece \<longrightarrow>
      parse_text_tool_call (pre @ ''Action:'' @ piece @ ''Action:'' @ later) = parse_text_tool_call piece)\<close>
    using act[of "''Action:'' @ later"] by simp
  have c4: \<open>(\<not> py_contains ''Observation:'' (tool_name @ ''Action input:'' @ tool_input)
        \<and> \<not> py_contains ''Action:'' (tool_name @ ''Action input:'' @ tool_input)
        \<and> \<not> py_contains ''Action input:'' tool_name \<and> \<not> py_contains ''Action input:'' tool_input \<longrightarrow>
      parse_text_tool_call (tool_name @ ''Action input:'' @ tool_input) =
        (if py_contains ''{'' tool_input then
           (case parse_json_blob tool_input of
              Inl e \<Rightarrow> Inl (Exn ValueError (text_tool_call_msg (exn_str e)))
            | Inr v \<Rightarrow> Inr (py_replace [CHR 0x5C] [] (py_replace [CHR 0x22] [] (py_strip tool_name)),
                         JsonInput v))
         else Inr (py_replace [CHR 0x5C] [] (py_replace [CHR 0x22] [] (py_strip tool_name)),
                   TextInput (py_replace [CHR 0x22] [] (py_strip tool_input)))))\<close>
    using inp unfolding text_tool_call_def clean_tool_name_def by blast
  from c1 c2 c3 c4 ex show ?thesis by blast
qed

text \<open>
  Claim C4 as stated fails on a text with two \<open>Action:\<close> markers: the function takes the
  piece between the first and the second marker, not what follows the last one, and
  here that piece has no \<open>Action input:\<close>. What follows the last marker would parse.
\<close>

theorem second_action_marker_ignored:
  "parse_text_tool_call
     ''Thought: the Action: marker comes first.\<newline>Action: search\<newline>Action input: weather''
     = Inl (Exn ValueError (text_tool_call_msg (unpack2_msg 1)))
   \<and> last (py_split ''Action:''
       ''Thought: the Action: marker comes first.\<newline>Action: search\<newline>Action input: weather'')
     = '' search\<newline>Action input: weather''
   \<and> parse_text_tool_call '' search\<newline>Action input: weather'' = Inr (''search'', TextInput ''weather'')"
  by code_simp

text \<open>One text for each step.\<close>

theorem parse_text_tool_call_steps_witness:
  \<open>\<not> py_contains ''Observation:'' ''Action: search\<newline>Action input: weather\<newline>''
   \<and> parse_text_tool_call (''Action: search\<newline>Action input: weather\<newline>'' @ ''Observation:'' @ '' sunny'')
       = Inr (''search'', TextInput ''weather'')
   \<and> \<not> py_contains ''Action:'' ''Thought: go.\<newline>''
   \<and> \<not> py_contains ''Action:'' '' search\<newline>Action input: weather''
   \<and> parse_text_tool_call (''Thought: go.\<newline>'' @ ''Action:'' @ '' search\<newline>Action input: weather'')
       = Inr (''search'', TextInput ''weather'')
   \<and> parse_text_tool_call (''Thought: go.\<newline>'' @ ''Action:'' @ '' search\<newline>Action input: weather''
         @ ''Action:'' @ '' other\<newline>Action input: x'')
       = Inr (''search'', TextInput ''weather'')
   \<and> \<not> py_contains ''Action input:'' '' "search"\<newline>''
   \<and> \<not> py_contains ''Action input:'' '' {"q": 1}''
   \<and> parse_text_tool_call ('' "search"\<newline>'' @ ''Action input:'' @ '' {"q": 1}'')
       = Inr (''search'', JsonInput (JObject [(ustr ''q'', JInt 1)]))\<close>
proof -
  let ?body = "''Action: search\<newline>Action input: weather\<newline>''"
  let ?pre = "''Thought: go.\<newline>''"
  let ?piece = "'' search\<newline>Action input: weather''"
  let ?later = "'' other\<newline>Action input: x''"
  let ?name = \<open>'' "search"\<newline>''\<close>
  let ?input = \<open>'' {"q": 1}''\<close>
  note inst = parse_text_tool_call_steps[where body = ?body and rest = "'' sunny''" and pre = ?pre
      and piece = ?piece and later = ?later and tool_name = ?name and tool_input = ?input]
  have h1: "\<not> py_contains ''Observation:'' ?body" by code_simp
  have h2: "\<not> py_contains ''Observation:'' (?pre @ ''Action:'' @ ?piece)" by code_simp
  have h3: "\<not> py_contains ''Action:'' ?pre" by code_simp
  have h4: "\<not> py_contains ''Action:'' ?piece" by code_simp
  have h5: "\<not> py_contains ''Observation:'' (?pre @ ''Action:'' @ ?piece @ ''Action:'' @ ?later)" by code_simp
  have h6: "\<not> py_contains ''Observation:'' (?name @ ''Action input:'' @ ?input)" by code_simp
  have h7: "\<not> py_contains ''Action:'' (?name @ ''Action input:'' @ ?input)" by code_simp
  have h8: "\<not> py_contains ''Action input:'' ?name" by code_simp
  have h9: "\<not> py_contains ''Action input:'' ?input" by code_simp
  have v1: "parse_text_tool_call ?body = Inr (''search'', TextInput ''weather'')" by code_simp
  have v2: "parse_text_tool_call ?piece = Inr (''search'', TextInput ''weather'')" by code_simp
  have v3: "py_contains ''{'' ?input" by code_simp
  have v4: "parse_json_blob ?input = Inr (JObject [(ustr ''q'', JInt 1)])" by code_simp
  have v5: "py_replace [CHR 0x5C] [] (py_replace [CHR 0x22] [] (py_strip ?name)) = ''search''" by code_simp
  from inst h1 v1 have r1: "parse_text_tool_call (?body @ ''Observation:'' @ '' sunny'')
       = Inr (''search'', TextInput ''weather'')" by metis
  from inst h2 h3 h4 v2 have r2: "parse_text_tool_call (?pre @ ''Action:'' @ ?piece)
       = Inr (''search'', TextInput ''weather'')" by metis
  from inst h5 h3 h4 v2 have r3: "parse_text_tool_call (?pre @ ''Action:'' @ ?piece @ ''Action:'' @ ?later)
       = Inr (''search'', TextInput ''weather'')" by metis
  from inst h6 h7 h8 h9 have "parse_text_tool_call (?name @ ''Action input:'' @ ?input) =
        (if py_contains ''{'' ?input then
           (case parse_json_blob ?input of
              Inl e \<Rightarrow> Inl (Exn ValueError (text_tool_call_msg (exn_str e)))
            | Inr v \<Rightarrow> Inr (py_replace [CHR 0x5C] [] (py_replace [CHR 0x22] [] (py_strip ?name)),
                         JsonInput v))
         else Inr (py_replace [CHR 0x5C] [] (py_replace [CHR 0x22] [] (py_strip ?name)),
                   TextInput (py_replace [CHR 0x22] [] (py_strip ?input))))" by blast
  then have r4: "parse_text_tool_call (?name @ ''Action input:'' @ ?input)
       = Inr (''search'', JsonInput (JObject [(ustr ''q'', JInt 1)]))"
    by (simp only: v3 v4 v5 if_True sum.case)
  from h1 r1 h3 h4 r2 r3 h8 h9 r4 show ?thesis by blast
qed

end
